theory Spec2Isabelle
  imports Complex_Main
begin

section \<open>JavaScript primitives used by the evaluation engine\<close>

text \<open>
  Numbers are modelled exactly: a JavaScript \<open>number\<close> that the code only ever holds an
  integer in is an \<open>int\<close> (or a \<open>nat\<close> for a length), every other one is a \<open>rat\<close>.
  The mean gap between commits is computed as the code computes it, in double precision:
  each subtraction, division, addition and multiplication on the way to it is rounded
  to the nearest double (\<open>toDouble\<close>), since the rounded mean decides two rules of the
  burst heuristic.
  Strings are lists of 8-bit characters, and the character classes below are the ASCII
  part of the JavaScript ones. The human-readable evidence the modules collect beside
  their numbers (\<open>flags\<close>, \<open>positives\<close>, \<open>explanations\<close>, \<open>notes\<close>) feeds no number and
  no branch that decides a number, and is left out of the records.
\<close>

definition Math_round :: "rat \<Rightarrow> int" where
  \<comment> \<open>\<open>Math.round\<close>: the nearest integer, a half rounding towards plus infinity.\<close>
  "Math_round x = \<lfloor>x + 1 / 2\<rfloor>"

function ilog2 :: "int \<Rightarrow> int" where
  \<comment> \<open>the position of the highest bit: \<open>2 ^ ilog2 n \<le> n < 2 ^ (ilog2 n + 1)\<close> for \<open>n \<ge> 1\<close>\<close>
  "ilog2 n = (if n < 2 then 0 else 1 + ilog2 (n div 2))"
  by pat_completeness auto
termination
  by (relation "measure nat") auto

declare ilog2.simps [simp del]

definition pow2 :: "int \<Rightarrow> rat" where
  "pow2 e = (if 0 \<le> e then 2 ^ nat e else 1 / 2 ^ nat (- e))"

definition exponentOf :: "rat \<Rightarrow> int" where
  \<comment> \<open>the binary exponent \<open>e\<close> of a number that is not zero:
      \<open>pow2 e \<le> \<bar>x\<bar> < pow2 (e + 1)\<close>; the difference of the bit positions of numerator
      and denominator is \<open>e\<close> or \<open>e + 1\<close>\<close>
  "exponentOf x =
     (let (p, q) = quotient_of \<bar>x\<bar>;
          e0 = ilog2 p - ilog2 q
      in if pow2 e0 \<le> \<bar>x\<bar> then e0 else e0 - 1)"

definition roundTiesToEven :: "rat \<Rightarrow> int" where
  "roundTiesToEven y =
     (let f = \<lfloor>y\<rfloor>;
          r = y - of_int f
      in if r < 1 / 2 then f
         else if r > 1 / 2 then f + 1
         else if even f then f else f + 1)"

definition toDouble :: "rat \<Rightarrow> rat" where
  \<comment> \<open>the double nearest to a number, a tie going to the even significand: a
      significand of 53 bits at the number's binary exponent. Overflow and subnormal
      numbers are not modelled; hours between commits are far from both.\<close>
  "toDouble x =
     (if x = 0 then 0
      else (let q = pow2 (exponentOf x - 52)
            in of_int (roundTiesToEven (x / q)) * q))"

definition isSpace :: "char \<Rightarrow> bool" where
  \<comment> \<open>the regular expression class \<open>\s\<close>, also what \<open>trim\<close> removes\<close>
  "isSpace c = (c \<in> {CHR '' '', CHR 0x09, CHR 0x0A, CHR 0x0B, CHR 0x0C, CHR 0x0D})"

definition isWordChar :: "char \<Rightarrow> bool" where
  \<comment> \<open>the regular expression class \<open>\w\<close>\<close>
  "isWordChar c =
     (let n = (of_char c :: nat)
      in (48 \<le> n \<and> n \<le> 57) \<or> (65 \<le> n \<and> n \<le> 90) \<or> n = 95 \<or> (97 \<le> n \<and> n \<le> 122))"

definition lowerChar :: "char \<Rightarrow> char" where
  "lowerChar c =
     (let n = (of_char c :: nat) in if 65 \<le> n \<and> n \<le> 90 then char_of (n + 32) else c)"

definition toLowerCase :: "string \<Rightarrow> string" where
  "toLowerCase s = map lowerChar s"

definition trim :: "string \<Rightarrow> string" where
  "trim s = rev (dropWhile isSpace (rev (dropWhile isSpace s)))"

fun startsWith :: "string \<Rightarrow> string \<Rightarrow> bool" where
  "startsWith s [] = True"
| "startsWith [] (p # ps) = False"
| "startsWith (c # cs) (p # ps) = (c = p \<and> startsWith cs ps)"

definition endsWith :: "string \<Rightarrow> string \<Rightarrow> bool" where
  "endsWith s p = startsWith (rev s) (rev p)"

fun str_includes :: "string \<Rightarrow> string \<Rightarrow> bool" where
  \<comment> \<open>\<open>s.includes(p)\<close>: \<open>p\<close> occurs in \<open>s\<close> at some position\<close>
  "str_includes [] p = (p = [])"
| "str_includes (c # cs) p = (startsWith (c # cs) p \<or> str_includes cs p)"

definition some :: "('a \<Rightarrow> bool) \<Rightarrow> 'a list \<Rightarrow> bool" where
  \<comment> \<open>\<open>xs.some(f)\<close>\<close>
  "some f xs = (filter f xs \<noteq> [])"

fun splitChar :: "char \<Rightarrow> string \<Rightarrow> string \<Rightarrow> string list" where
  \<comment> \<open>\<open>s.split(sep)\<close> for a one-character separator; the second argument is the piece
      being read, reversed\<close>
  "splitChar sep cur [] = [rev cur]"
| "splitChar sep cur (c # cs) =
     (if c = sep then rev cur # splitChar sep [] cs else splitChar sep (c # cur) cs)"

fun splitRuns :: "(char \<Rightarrow> bool) \<Rightarrow> bool \<Rightarrow> string \<Rightarrow> string \<Rightarrow> string list" where
  \<comment> \<open>\<open>s.split(/[class]+/)\<close>: a maximal run of separator characters separates two pieces;
      the flag says that the previous character was a separator\<close>
  "splitRuns sep prev cur [] = [rev cur]"
| "splitRuns sep prev cur (c # cs) =
     (if sep c then (if prev then splitRuns sep True cur cs
                     else rev cur # splitRuns sep True [] cs)
      else splitRuns sep False (c # cur) cs)"

definition splitWhitespace :: "string \<Rightarrow> string list" where
  \<comment> \<open>\<open>s.split(/\s+/)\<close>\<close>
  "splitWhitespace s = splitRuns isSpace False [] s"

definition truthy :: "string option \<Rightarrow> bool" where
  \<comment> \<open>an optional string in a condition: \<open>undefined\<close> and the empty string are falsy\<close>
  "truthy s = (case s of None \<Rightarrow> False | Some v \<Rightarrow> v \<noteq> [])"

fun uniq :: "'a list \<Rightarrow> 'a list \<Rightarrow> 'a list" where
  \<comment> \<open>the keys of a \<open>Map\<close> or the elements of a \<open>Set\<close> in insertion order; the first
      argument holds what was inserted so far\<close>
  "uniq seen [] = []"
| "uniq seen (x # xs) = (if x \<in> set seen then uniq seen xs else x # uniq (x # seen) xs)"

definition clamp :: "rat \<Rightarrow> int" where
  \<comment> \<open>\<open>clamp(value, min = 1, max = 10)\<close> of the scoring engine, and the inline
      \<open>Math.min(10, Math.max(1, Math.round(value)))\<close> of the other modules\<close>
  "clamp v = min 10 (max 1 (Math_round v))"


section \<open>Repository analyzer\<close>

text \<open>
  Of \<open>GitHubAnalysis\<close> the model keeps the fetch outcome and every field that a score or
  a branch reads; the identity metadata copied from the hosting API, the per-day
  timeline, the first and last commit dates, the extension histogram and the top-level
  listing are not modelled.
\<close>

record GitHubAnalysis =
  fetched :: bool
  error :: "string option"
  isForked :: bool
  isMirror :: bool
  hasReadme :: bool
  hasLicense :: bool
  languages :: "(string \<times> nat) list"
  totalCommits :: nat
  commitAuthors :: "string list"
  avgTimeBetweenCommits :: rat
  burstCommitScore :: int
  singleAuthorPercent :: int
  totalFiles :: nat
  totalDirs :: nat
  hasPackageJson :: bool
  hasRequirements :: bool
  hasDockerfile :: bool
  hasCIConfig :: bool
  hasTests :: bool
  hasEnvExample :: bool
  structureDepth :: nat
  modularityScore :: int
  cleanlinessScore :: int
  commitGenuineness :: int
  overallRepoScore :: int

subsection \<open>Parsing owner and repository from the URL\<close>

definition ownerRepoAt ::
  "bool \<Rightarrow> (char \<Rightarrow> bool) \<Rightarrow> string \<Rightarrow> (string \<times> string) option" where
  \<comment> \<open>the pattern \<open>github\.com\/([class]+)\/([^/\s?#]+)\<close>, anchored at the head of the
      string, with flag \<open>i\<close> or without; the class of the first group excludes the slash,
      so both groups are greedy and neither can give back a character\<close>
  "ownerRepoAt ignoreCase g1class s =
     (if startsWith (if ignoreCase then toLowerCase s else s) ''github.com/'' then
        (let r = drop 11 s;
             g1 = takeWhile g1class r
         in if g1 = [] then None
            else (case drop (length g1) r of
                    [] \<Rightarrow> None
                  | c # r3 \<Rightarrow>
                      if c \<noteq> CHR ''/'' then None
                      else (let g2 = takeWhile (\<lambda>c. c \<noteq> CHR ''/'' \<and> c \<noteq> CHR ''?''
                                                  \<and> c \<noteq> CHR ''#'' \<and> \<not> isSpace c) r3
                            in if g2 = [] then None else Some (g1, g2))))
      else None)"

fun urlMatch :: "bool \<Rightarrow> (char \<Rightarrow> bool) \<Rightarrow> string \<Rightarrow> (string \<times> string) option" where
  \<comment> \<open>\<open>url.match(...)\<close>: the leftmost position at which the pattern matches\<close>
  "urlMatch ignoreCase g1class [] = ownerRepoAt ignoreCase g1class []"
| "urlMatch ignoreCase g1class (c # cs) =
     (case ownerRepoAt ignoreCase g1class (c # cs) of
        Some m \<Rightarrow> Some m
      | None \<Rightarrow> urlMatch ignoreCase g1class cs)"

definition stripDotGit :: "string \<Rightarrow> string" where
  \<comment> \<open>\<open>.replace(/\.git$/, "")\<close>\<close>
  "stripDotGit s = (if endsWith s ''.git'' then take (length s - 4) s else s)"

definition parseGitHubUrl :: "string \<Rightarrow> (string \<times> string) option" where
  "parseGitHubUrl url =
     (if url = [] then None
      else (case urlMatch True (\<lambda>c. c \<noteq> CHR ''/'' \<and> \<not> isSpace c) url of
              None \<Rightarrow> None
            | Some (owner, repo) \<Rightarrow> Some (owner, stripDotGit repo)))"

subsection \<open>Commit patterns\<close>

text \<open>
  A commit's date string is modelled by what \<open>new Date\<close> makes of it: the milliseconds
  since the epoch, or an invalid date. A missing or empty string is \<open>None\<close>.
\<close>

datatype jsdate = ValidDate int | InvalidDate

record GitHubCommitRaw =
  commit_author_name :: "string option"
  commit_author_date :: "jsdate option"
  commit_committer_date :: "jsdate option"
  commit_message :: "string option"
  author_login :: "string option"

record CommitAnalysis =
  ca_totalCommits :: nat
  ca_commitAuthors :: "string list"
  ca_avgTimeBetweenCommits :: rat
  ca_burstCommitScore :: int
  ca_singleAuthorPercent :: int

definition commitAuthor :: "GitHubCommitRaw \<Rightarrow> string" where
  \<comment> \<open>\<open>c.commit?.author?.name || c.author?.login || "unknown"\<close>\<close>
  "commitAuthor c =
     (if truthy (commit_author_name c) then the (commit_author_name c)
      else if truthy (author_login c) then the (author_login c)
      else ''unknown'')"

definition commitDate :: "GitHubCommitRaw \<Rightarrow> jsdate" where
  \<comment> \<open>\<open>new Date(c.commit?.author?.date || c.commit?.committer?.date)\<close>\<close>
  "commitDate c =
     (case commit_author_date c of
        Some d \<Rightarrow> d
      | None \<Rightarrow> (case commit_committer_date c of Some d \<Rightarrow> d | None \<Rightarrow> InvalidDate))"

fun validTimes :: "jsdate list \<Rightarrow> int list" where
  \<comment> \<open>\<open>.filter((d) => !isNaN(d.getTime()))\<close>\<close>
  "validTimes [] = []"
| "validTimes (ValidDate t # ds) = t # validTimes ds"
| "validTimes (InvalidDate # ds) = validTimes ds"

definition dayOf :: "int \<Rightarrow> int" where
  \<comment> \<open>\<open>d.toISOString().slice(0, 10)\<close>, the UTC calendar day, as the number of the day\<close>
  "dayOf t = t div 86400000"

fun gapHoursFrom :: "rat \<Rightarrow> int list \<Rightarrow> rat" where
  \<comment> \<open>the loop \<open>totalGapHours += (dates[i] - dates[i - 1]) / (1000 * 60 * 60)\<close> from
      a value of \<open>totalGapHours\<close> on, in double arithmetic\<close>
  "gapHoursFrom acc (a # b # ts) =
     gapHoursFrom (toDouble (acc + toDouble (toDouble (of_int (b - a)) / 3600000))) (b # ts)"
| "gapHoursFrom acc ts = acc"

definition gapHours :: "int list \<Rightarrow> rat" where
  \<comment> \<open>\<open>totalGapHours\<close> after the loop\<close>
  "gapHours dates = gapHoursFrom 0 dates"

definition aiCommitPatterns :: "string list" where
  "aiCommitPatterns =
     [''initial commit'', ''add files'', ''update'', ''first commit'', ''auto'', ''generated'']"

definition commitMessage :: "GitHubCommitRaw \<Rightarrow> string" where
  \<comment> \<open>\<open>c.commit?.message?.toLowerCase() || ""\<close>\<close>
  "commitMessage c = (case commit_message c of None \<Rightarrow> [] | Some m \<Rightarrow> toLowerCase m)"

definition burstRules :: "nat \<Rightarrow> nat \<Rightarrow> rat \<Rightarrow> rat \<Rightarrow> int" where
  \<comment> \<open>the chain of \<open>if\<close>s on the commit count, the number of days, the span in hours and
      the rounded mean gap\<close>
  "burstRules n totalDays totalSpanHours avg =
     (if n \<le> 2 then 70
      else if totalDays = 1 then 90
      else if totalSpanHours < 4 then 85
      else if totalDays \<le> 2 \<and> n > 5 then 65
      else if avg < 1 / 2 \<and> n > 3 then 60
      else if totalDays \<ge> 3 \<and> avg \<ge> 2 then 15
      else 30)"

definition sortedDates :: "GitHubCommitRaw list \<Rightarrow> int list" where
  \<comment> \<open>\<open>dates\<close>: the valid commit dates, in milliseconds, in ascending order\<close>
  "sortedDates commits = sort (validTimes (map commitDate commits))"

definition topAuthorPercent :: "GitHubCommitRaw list \<Rightarrow> int" where
  \<comment> \<open>\<open>singleAuthorPercent\<close>, from the counts per author in \<open>authorMap\<close>\<close>
  "topAuthorPercent commits =
     (let authors = map commitAuthor commits;
          topAuthorCount = Max (set (map (\<lambda>a. count_list authors a) (uniq [] authors)))
      in Math_round (of_nat topAuthorCount / of_nat (length commits) * 100))"

definition avgTimeBetween :: "int list \<Rightarrow> rat" where
  \<comment> \<open>\<open>avgTimeBetweenCommits\<close>, in hours with one decimal:
      \<open>Math.round((totalGapHours / (dates.length - 1)) * 10) / 10\<close> in double arithmetic\<close>
  "avgTimeBetween dates =
     (if length dates > 1
      then toDouble
             (of_int (Math_round
                (toDouble (toDouble (gapHours dates / of_nat (length dates - 1)) * 10))) / 10)
      else 0)"

definition totalDaysOf :: "int list \<Rightarrow> nat" where
  \<comment> \<open>\<open>dayMap.size\<close>\<close>
  "totalDaysOf dates = length (uniq [] (map dayOf dates))"

definition totalSpanHoursOf :: "int list \<Rightarrow> rat" where
  \<comment> \<open>\<open>totalSpanHours\<close>; it is only compared with 4, and a whole number of milliseconds
      divided by 3600000 is below 4 exactly when the double nearest to it is\<close>
  "totalSpanHoursOf dates =
     (if length dates \<ge> 2 then of_int (last dates - hd dates) / 3600000 else 0)"

definition genericMessage :: "string \<Rightarrow> bool" where
  \<comment> \<open>\<open>aiCommitPatterns.some((p) => m === p || m.startsWith(p))\<close>\<close>
  "genericMessage m = some (\<lambda>p. m = p \<or> startsWith m p) aiCommitPatterns"

definition aiMsgCountOf :: "GitHubCommitRaw list \<Rightarrow> nat" where
  "aiMsgCountOf commits = length (filter genericMessage (map commitMessage commits))"

definition burstOf :: "GitHubCommitRaw list \<Rightarrow> int" where
  \<comment> \<open>\<open>burstCommitScore\<close> of a list of commits that is not empty\<close>
  "burstOf commits =
     (let dates = sortedDates commits;
          burst0 = burstRules (length commits) (totalDaysOf dates) (totalSpanHoursOf dates)
                     (avgTimeBetween dates)
      in if of_nat (aiMsgCountOf commits) > of_nat (length commits) * (6 / 10 :: rat)
         then min (burst0 + 20) 100 else burst0)"

definition analyzeCommits :: "GitHubCommitRaw list \<Rightarrow> CommitAnalysis" where
  "analyzeCommits commits =
     (if commits = [] then
        \<lparr>ca_totalCommits = 0, ca_commitAuthors = [], ca_avgTimeBetweenCommits = 0,
         ca_burstCommitScore = 100, ca_singleAuthorPercent = 100\<rparr>
      else
        \<lparr>ca_totalCommits = length commits,
         ca_commitAuthors = uniq [] (map commitAuthor commits),
         ca_avgTimeBetweenCommits = avgTimeBetween (sortedDates commits),
         ca_burstCommitScore = burstOf commits,
         ca_singleAuthorPercent = topAuthorPercent commits\<rparr>)"

subsection \<open>File tree\<close>

record TreeItemRaw =
  path :: string
  item_type :: string

record TreeAnalysis =
  ta_totalFiles :: nat
  ta_totalDirs :: nat
  ta_hasPackageJson :: bool
  ta_hasRequirements :: bool
  ta_hasDockerfile :: bool
  ta_hasCIConfig :: bool
  ta_hasTests :: bool
  ta_hasEnvExample :: bool
  ta_structureDepth :: nat
  ta_modularityScore :: int

definition modularityRaw ::
  "nat \<Rightarrow> nat \<Rightarrow> nat \<Rightarrow> bool \<Rightarrow> bool \<Rightarrow> bool \<Rightarrow> bool \<Rightarrow> rat" where
  \<comment> \<open>the running \<open>modularityScore\<close> before it is rounded and clamped\<close>
  "modularityRaw nFiles nDirs depth docker ci tests envEx =
     3
     + (if nDirs \<ge> 3 then 1 else 0)
     + (if nDirs \<ge> 6 then 1 else 0)
     + (if depth \<ge> 3 then 1 / 2 else 0)
     + (if depth \<ge> 5 then 1 / 2 else 0)
     + (if nFiles \<ge> 10 then 1 / 2 else 0)
     + (if nFiles \<ge> 25 then 1 / 2 else 0)
     + (if nFiles \<ge> 50 then 1 else 0)
     + (if docker then 1 / 2 else 0)
     + (if ci then 1 else 0)
     + (if tests then 1 else 0)
     + (if envEx then 1 / 2 else 0)
     - (if nFiles \<le> 3 then 2 else 0)
     - (if nDirs = 0 then 1 else 0)
     - (if nFiles > 10 \<and> nDirs \<le> 1 then 1 else 0)"

definition analyzeTree :: "TreeItemRaw list \<Rightarrow> TreeAnalysis" where
  "analyzeTree tree =
     (let files = filter (\<lambda>t. item_type t = ''blob'') tree;
          dirs = filter (\<lambda>t. item_type t = ''tree'') tree;
          totalFiles = length files;
          totalDirs = length dirs;
          allPaths = map (\<lambda>t. toLowerCase (path t)) tree;
          hasPackageJson =
            some (\<lambda>p. p = ''package.json'' \<or> endsWith p ''/package.json'') allPaths;
          hasRequirements =
            some (\<lambda>p. str_includes p ''requirements.txt'' \<or> str_includes p ''pyproject.toml''
                       \<or> str_includes p ''pipfile'') allPaths;
          hasDockerfile =
            some (\<lambda>p. str_includes p ''dockerfile'' \<or> str_includes p ''docker-compose'') allPaths;
          hasCIConfig =
            some (\<lambda>p. str_includes p ''.github/workflows'' \<or> str_includes p ''.gitlab-ci''
                       \<or> str_includes p ''jenkinsfile'' \<or> str_includes p ''.circleci'') allPaths;
          hasTests =
            some (\<lambda>p. str_includes p ''test'' \<or> str_includes p ''spec''
                       \<or> str_includes p ''__tests__'') allPaths;
          hasEnvExample =
            some (\<lambda>p. str_includes p ''.env.example'' \<or> str_includes p ''.env.sample'') allPaths;
          depths = map (\<lambda>t. length (splitChar (CHR ''/'') [] (path t))) tree;
          structureDepth = fold max depths 1
      in \<lparr>ta_totalFiles = totalFiles, ta_totalDirs = totalDirs,
          ta_hasPackageJson = hasPackageJson, ta_hasRequirements = hasRequirements,
          ta_hasDockerfile = hasDockerfile, ta_hasCIConfig = hasCIConfig,
          ta_hasTests = hasTests, ta_hasEnvExample = hasEnvExample,
          ta_structureDepth = structureDepth,
          ta_modularityScore =
            clamp (modularityRaw totalFiles totalDirs structureDepth
                     hasDockerfile hasCIConfig hasTests hasEnvExample)\<rparr>)"

subsection \<open>The analysis of a repository\<close>

text \<open>
  The hosting API is a parameter: for each of the four requests, either the message of
  the error that \<open>fetchJSON\<close> throws (a status that is not OK, a network failure, the
  timeout) or the decoded answer. The tree is asked for by base URL and branch.
\<close>

record RepoInfo =
  default_branch :: "string option"
  fork :: bool
  mirror_url :: "string option"
  info_description :: "string option"

record GitHubApi =
  getRepo :: "string \<Rightarrow> string + RepoInfo"
  getCommits :: "string \<Rightarrow> string + GitHubCommitRaw list"
  getLanguages :: "string \<Rightarrow> string + (string \<times> nat) list"
  getTree :: "string \<Rightarrow> string \<Rightarrow> string + TreeItemRaw list"

definition emDash :: string where
  \<comment> \<open>the dash of the messages, U+2014, in UTF-8\<close>
  "emDash = [CHR 0xE2, CHR 0x80, CHR 0x94]"

definition createEmptyAnalysis :: "string \<Rightarrow> GitHubAnalysis" where
  "createEmptyAnalysis err =
     \<lparr>fetched = False, error = Some err,
      isForked = False, isMirror = False, hasReadme = False, hasLicense = False,
      languages = [],
      totalCommits = 0, commitAuthors = [], avgTimeBetweenCommits = 0,
      burstCommitScore = 50, singleAuthorPercent = 100,
      totalFiles = 0, totalDirs = 0,
      hasPackageJson = False, hasRequirements = False, hasDockerfile = False,
      hasCIConfig = False, hasTests = False, hasEnvExample = False,
      structureDepth = 0,
      modularityScore = 3, cleanlinessScore = 3, commitGenuineness = 3,
      overallRepoScore = 3\<rparr>"

definition orDefault :: "'e + 'a \<Rightarrow> 'a \<Rightarrow> 'a" where
  \<comment> \<open>\<open>fetchJSON(...).catch(() => d)\<close>\<close>
  "orDefault r d = (case r of Inl e \<Rightarrow> d | Inr v \<Rightarrow> v)"

definition cleanlinessRaw ::
  "bool \<Rightarrow> bool \<Rightarrow> nat \<Rightarrow> bool \<Rightarrow> bool \<Rightarrow> bool \<Rightarrow> nat \<Rightarrow> rat" where
  \<comment> \<open>the running \<open>cleanlinessScore\<close> before it is rounded and clamped\<close>
  "cleanlinessRaw readme license nLangs envEx tests described nFiles =
     4
     + (if readme then 3 / 2 else 0)
     + (if license then 1 / 2 else 0)
     + (if nLangs \<ge> 2 then 1 / 2 else 0)
     + (if envEx then 1 / 2 else 0)
     + (if tests then 1 else 0)
     + (if described then 1 / 2 else 0)
     - (if nFiles \<le> 3 then 2 else 0)"

definition fetchedAnalysis ::
  "RepoInfo \<Rightarrow> GitHubCommitRaw list \<Rightarrow> (string \<times> nat) list \<Rightarrow> TreeItemRaw list
     \<Rightarrow> GitHubAnalysis" where
  \<comment> \<open>the body of the \<open>try\<close> block after the four requests have been answered\<close>
  "fetchedAnalysis repoInfo commitsRaw langs treeItems =
     (let commitAnalysis = analyzeCommits commitsRaw;
          treeAnalysis = analyzeTree treeItems;
          langEntries = langs;
          hasReadme = some (\<lambda>t. startsWith (toLowerCase (path t)) ''readme'') treeItems;
          hasLicense = some (\<lambda>t. startsWith (toLowerCase (path t)) ''license'') treeItems;
          cleanlinessScore =
            clamp (cleanlinessRaw hasReadme hasLicense (length langEntries)
                     (ta_hasEnvExample treeAnalysis) (ta_hasTests treeAnalysis)
                     (truthy (info_description repoInfo)) (ta_totalFiles treeAnalysis));
          commitGenuineness =
            clamp (10 - of_int (ca_burstCommitScore commitAnalysis) / 10);
          overallRepoScore =
            clamp (of_int (ta_modularityScore treeAnalysis) * (3 / 10)
                   + of_int cleanlinessScore * (25 / 100)
                   + of_int commitGenuineness * (35 / 100)
                   + (if fork repoInfo then - 2 else 0)
                   + (if truthy (mirror_url repoInfo) then - 2 else 0)
                   + (if ta_hasTests treeAnalysis then 1 / 2 else 0)
                   + (if ta_hasCIConfig treeAnalysis then 1 / 2 else 0))
      in \<lparr>fetched = True, error = None,
          isForked = fork repoInfo, isMirror = truthy (mirror_url repoInfo),
          hasReadme = hasReadme, hasLicense = hasLicense,
          languages = langs,
          totalCommits = ca_totalCommits commitAnalysis,
          commitAuthors = ca_commitAuthors commitAnalysis,
          avgTimeBetweenCommits = ca_avgTimeBetweenCommits commitAnalysis,
          burstCommitScore = ca_burstCommitScore commitAnalysis,
          singleAuthorPercent = ca_singleAuthorPercent commitAnalysis,
          totalFiles = ta_totalFiles treeAnalysis, totalDirs = ta_totalDirs treeAnalysis,
          hasPackageJson = ta_hasPackageJson treeAnalysis,
          hasRequirements = ta_hasRequirements treeAnalysis,
          hasDockerfile = ta_hasDockerfile treeAnalysis,
          hasCIConfig = ta_hasCIConfig treeAnalysis,
          hasTests = ta_hasTests treeAnalysis,
          hasEnvExample = ta_hasEnvExample treeAnalysis,
          structureDepth = ta_structureDepth treeAnalysis,
          modularityScore = ta_modularityScore treeAnalysis,
          cleanlinessScore = cleanlinessScore,
          commitGenuineness = commitGenuineness,
          overallRepoScore = overallRepoScore\<rparr>)"

definition apiBaseUrl :: "string \<Rightarrow> string \<Rightarrow> string" where
  "apiBaseUrl owner repo = ''https://api.github.com/repos/'' @ owner @ ''/'' @ repo"

definition defaultBranchOf :: "RepoInfo \<Rightarrow> string" where
  \<comment> \<open>\<open>repoInfo?.default_branch || "main"\<close>\<close>
  "defaultBranchOf repoInfo =
     (if truthy (default_branch repoInfo) then the (default_branch repoInfo) else ''main'')"

definition tryAnalyze :: "GitHubApi \<Rightarrow> string \<Rightarrow> string \<Rightarrow> string + GitHubAnalysis" where
  \<comment> \<open>the \<open>try\<close> block: \<open>Inl msg\<close> is the error thrown out of it\<close>
  "tryAnalyze api owner repo =
     (let baseUrl = apiBaseUrl owner repo
      in case getRepo api baseUrl of
           Inl msg \<Rightarrow> Inl msg
         | Inr repoInfo \<Rightarrow>
             (let defaultBranch = defaultBranchOf repoInfo;
                  commitsRaw = orDefault (getCommits api (baseUrl @ ''/commits?per_page=100'')) [];
                  langs = orDefault (getLanguages api (baseUrl @ ''/languages'')) [];
                  treeItems = orDefault (getTree api baseUrl defaultBranch) []
              in Inr (fetchedAnalysis repoInfo commitsRaw langs treeItems)))"

definition fetchError :: "string \<Rightarrow> string" where
  \<comment> \<open>the message the \<open>catch\<close> block makes of the thrown one\<close>
  "fetchError msg =
     (if str_includes msg ''404'' then
        ''Repository not found (404) '' @ emDash @ '' private or doesn't exist''
      else if str_includes msg ''403'' then
        ''GitHub API rate limit reached '' @ emDash @ '' try again later''
      else ''Failed to fetch: '' @ msg)"

definition analyzeGitHubRepo :: "GitHubApi \<Rightarrow> string \<Rightarrow> GitHubAnalysis" where
  "analyzeGitHubRepo api githubUrl =
     (case parseGitHubUrl githubUrl of
        None \<Rightarrow> createEmptyAnalysis ''Invalid or missing GitHub URL''
      | Some (owner, repo) \<Rightarrow>
          (case tryAnalyze api owner repo of
             Inr a \<Rightarrow> a
           | Inl msg \<Rightarrow> createEmptyAnalysis (fetchError msg)))"

section \<open>Plagiarism and originality detector\<close>

record PlagiarismDetails =
  overallScore :: int
  keywordDensity :: int
  aiPatternScore :: int
  boilerplateScore :: int
  commitHistoryScore :: int
  codeModularityScore :: int

definition AI_PATTERNS :: "string list" where
  "AI_PATTERNS =
     [''comprehensive'', ''robust'', ''scalable'', ''maintainable'',
      ''best practices'', ''industry standard'', ''enterprise-grade'',
      ''production-ready'', ''well-documented'', ''thoroughly tested'',
      ''handles edge cases'', ''implements interface'', ''follows solid principles'',
      ''design pattern'', ''clean architecture'', ''state-of-the-art'',
      ''cutting-edge'', ''seamless integration'', ''holistic approach'']"

definition BOILERPLATE_PATTERNS :: "string list" where
  "BOILERPLATE_PATTERNS =
     [''create-react-app'', ''npx create-next-app'', ''vite create'',
      ''todo app'', ''todo list'', ''calculator app'', ''weather app'',
      ''chat application'', ''e-commerce'', ''blog platform'',
      ''social media clone'', ''portfolio website'', ''landing page template'',
      ''crud application'', ''login registration'', ''authentication boilerplate'']"

definition COMMON_REPO_KEYWORDS :: "string list" where
  "COMMON_REPO_KEYWORDS =
     [''tutorial'', ''example'', ''demo'', ''template'', ''starter'',
      ''boilerplate'', ''scaffold'', ''seed project'', ''clone'', ''copy'',
      ''fork'', ''sample'']"

definition countMatches :: "string \<Rightarrow> string list \<Rightarrow> nat" where
  "countMatches text patterns =
     (let lower = toLowerCase text in length (filter (\<lambda>p. str_includes lower p) patterns))"

definition repeatedWords :: "string \<Rightarrow> nat" where
  \<comment> \<open>the number of words longer than three characters that occur more than twice\<close>
  "repeatedWords description =
     (let ws = filter (\<lambda>w. length w > 3) (splitWhitespace (toLowerCase description))
      in length (filter (\<lambda>w. count_list ws w > 2) (uniq [] ws)))"

definition commitHistoryRisk :: "GitHubAnalysis \<Rightarrow> int" where
  \<comment> \<open>the assignments to \<open>commitHistoryScore\<close> for a fetched analysis, in their order\<close>
  "commitHistoryRisk gh =
     (let c0 = 50;
          c1 = (if isForked gh then 85 else c0);
          c2 = (if isMirror gh then 90 else c1);
          c3 = (if \<not> isForked gh \<and> \<not> isMirror gh then burstCommitScore gh else c2);
          c4 = (if singleAuthorPercent gh = 100 \<and> totalCommits gh > 2 then max c3 55 else c3);
          c5 = (if totalCommits gh \<le> 5 then max c4 60 else c4);
          c6 = (if burstCommitScore gh \<ge> 50 \<and> totalCommits gh > 3 then max c5 50 else c5)
      in c6)"

definition codeModularityRisk :: "GitHubAnalysis \<Rightarrow> int" where
  \<comment> \<open>the assignments to \<open>codeModularityScore\<close> for a fetched analysis, in their order\<close>
  "codeModularityRisk gh =
     (let m0 = Math_round ((10 - of_int (modularityScore gh)) * 10);
          m1 = (if \<not> hasTests gh \<and> totalFiles gh > 10 then max m0 40 else m0);
          m2 = (if \<not> hasReadme gh then max m1 35 else m1);
          m3 = (if \<not> hasCIConfig gh \<and> totalFiles gh > 15 then max m2 30 else m2)
      in m3)"

definition analyzePlagiarism ::
  "string \<Rightarrow> string \<Rightarrow> string \<Rightarrow> GitHubAnalysis option \<Rightarrow> PlagiarismDetails" where
  "analyzePlagiarism githubUrl description projectName githubAnalysis =
     (let descWords = length (splitWhitespace description);
          aiMatches = countMatches description AI_PATTERNS;
          aiPatternScore = min (Math_round (of_nat aiMatches / 5 * 100)) 100;
          repeated = repeatedWords description;
          keywordDensity =
            min (Math_round (of_nat repeated / of_nat (max descWords 1) * 200)) 100;
          boilerplateMatches = countMatches description BOILERPLATE_PATTERNS
                               + countMatches projectName BOILERPLATE_PATTERNS;
          nameMatches = countMatches projectName COMMON_REPO_KEYWORDS;
          boilerplateScore = min (int (boilerplateMatches + nameMatches) * 20) 100;
          (commitHistoryScore, codeModularityScore) =
            (case githubAnalysis of
               Some gh \<Rightarrow>
                 if fetched gh then (commitHistoryRisk gh, codeModularityRisk gh)
                 else if githubUrl = [] \<or> trim githubUrl = [] then (55, 60)
                 else (50, 55)
             | None \<Rightarrow>
                 if githubUrl = [] \<or> trim githubUrl = [] then (55, 60)
                 else (50, 55));
          rawScore =
            Math_round (of_int commitHistoryScore * (40 / 100)
                        + of_int aiPatternScore * (20 / 100)
                        + of_int codeModularityScore * (15 / 100)
                        + of_int boilerplateScore * (15 / 100)
                        + of_int keywordDensity * (10 / 100));
          overallScore = max 5 (min rawScore 100)
      in \<lparr>overallScore = overallScore, keywordDensity = keywordDensity,
          aiPatternScore = aiPatternScore, boilerplateScore = boilerplateScore,
          commitHistoryScore = commitHistoryScore,
          codeModularityScore = codeModularityScore\<rparr>)"

section \<open>Heuristic scoring engine\<close>

datatype Domain =
  HealthTech | SmartCities | EdTech | FinTech | AgriTech | Sustainability | AI_ML
  | Blockchain | IoT | Cybersecurity | Gaming | SocialImpact | Other

datatype CriterionKey =
  innovation | technical_feasibility | impact | mvp_completeness | presentation
  | code_quality | team_collaboration | originality

record Criterion =
  key :: CriterionKey
  label :: string
  weight :: rat

definition CRITERIA :: "Criterion list" where
  "CRITERIA =
     [\<lparr>key = innovation, label = ''Innovation'', weight = 25 / 100\<rparr>,
      \<lparr>key = technical_feasibility, label = ''Technical Feasibility'', weight = 20 / 100\<rparr>,
      \<lparr>key = impact, label = ''Impact / Potential'', weight = 20 / 100\<rparr>,
      \<lparr>key = mvp_completeness, label = ''MVP Completeness'', weight = 10 / 100\<rparr>,
      \<lparr>key = presentation, label = ''Presentation'', weight = 10 / 100\<rparr>,
      \<lparr>key = code_quality, label = ''Code Quality'', weight = 5 / 100\<rparr>,
      \<lparr>key = team_collaboration, label = ''Team Collaboration'', weight = 5 / 100\<rparr>,
      \<lparr>key = originality, label = ''Originality'', weight = 5 / 100\<rparr>]"

datatype Verdict = Outstanding | Impressive | Promising | NeedsWork | Incomplete

record AIScoreResult =
  scores :: "CriterionKey \<rightharpoonup> int"
  weightedTotal :: rat
  overallVerdict :: Verdict

record Project =
  teamName :: string
  projectName :: string
  githubUrl :: string
  description :: string
  domain :: Domain
  pptFile :: "string option"
  pptFileName :: "string option"
  pptFileType :: "string option"
  aiScores :: "AIScoreResult option"
  githubAnalysis :: "GitHubAnalysis option"
  plagiarismScore :: int
  plagiarismDetails :: "PlagiarismDetails option"
  members :: "string list"

record DomainTech =
  high :: "string list"
  medium :: "string list"
  low :: "string list"

fun DOMAIN_TECH :: "Domain \<Rightarrow> DomainTech" where
  "DOMAIN_TECH AI_ML =
     \<lparr>high =
        [''transformer'', ''neural network'', ''deep learning'', ''reinforcement learning'',
         ''llm'', ''gpt'', ''bert'', ''diffusion'', ''fine-tuning'', ''rag'',
         ''vector database'', ''embeddings'', ''cnn'', ''rnn'', ''lstm''],
      medium =
        [''machine learning'', ''classification'', ''regression'', ''nlp'',
         ''computer vision'', ''opencv'', ''pytorch'', ''tensorflow'', ''scikit'',
         ''model training'', ''dataset'', ''prediction'', ''clustering''],
      low =
        [''ai'', ''artificial intelligence'', ''data'', ''algorithm'', ''automation'',
         ''smart'']\<rparr>"
| "DOMAIN_TECH HealthTech =
     \<lparr>high =
        [''ehr'', ''fhir'', ''hl7'', ''medical imaging'', ''dicom'', ''telemedicine'',
         ''drug discovery'', ''clinical trials'', ''genomics'', ''pathology'', ''radiology''],
      medium =
        [''health monitoring'', ''patient portal'', ''diagnosis'', ''wearable'',
         ''fitness tracker'', ''symptom checker'', ''medical records'', ''healthcare api''],
      low =
        [''health'', ''wellness'', ''doctor'', ''hospital'', ''medicine'', ''patient'']\<rparr>"
| "DOMAIN_TECH FinTech =
     \<lparr>high =
        [''payment gateway'', ''smart contract'', ''defi'', ''kyc'', ''aml'',
         ''algorithmic trading'', ''tokenization'', ''credit scoring model'',
         ''fraud detection''],
      medium =
        [''banking api'', ''upi'', ''wallet'', ''investment'', ''insurance'', ''loan'',
         ''transaction'', ''portfolio'', ''budgeting''],
      low =
        [''finance'', ''money'', ''payment'', ''banking'', ''fintech'']\<rparr>"
| "DOMAIN_TECH Blockchain =
     \<lparr>high =
        [''solidity'', ''smart contract'', ''consensus mechanism'', ''zero-knowledge'',
         ''zk-proof'', ''evm'', ''web3'', ''ipfs'', ''dao'', ''cross-chain''],
      medium =
        [''ethereum'', ''polygon'', ''nft'', ''token'', ''defi'', ''dapp'', ''metamask'',
         ''hardhat'', ''truffle'', ''blockchain node''],
      low =
        [''blockchain'', ''crypto'', ''decentralized'', ''ledger'', ''distributed'']\<rparr>"
| "DOMAIN_TECH IoT =
     \<lparr>high =
        [''mqtt'', ''embedded systems'', ''microcontroller'', ''fpga'', ''rtos'',
         ''edge computing'', ''sensor fusion'', ''digital twin''],
      medium =
        [''arduino'', ''raspberry pi'', ''esp32'', ''lora'', ''zigbee'', ''ble'', ''sensor'',
         ''actuator'', ''gpio'', ''firmware''],
      low =
        [''iot'', ''connected'', ''device'', ''smart device'', ''automation'']\<rparr>"
| "DOMAIN_TECH Cybersecurity =
     \<lparr>high =
        [''zero-day'', ''penetration testing'', ''cryptography'',
         ''vulnerability assessment'', ''siem'', ''intrusion detection'',
         ''reverse engineering'', ''threat modeling''],
      medium =
        [''firewall'', ''encryption'', ''authentication'', ''oauth'', ''jwt'', ''xss'',
         ''sql injection'', ''malware'', ''phishing detection'', ''security audit''],
      low =
        [''security'', ''privacy'', ''protection'', ''safe'', ''secure'']\<rparr>"
| "DOMAIN_TECH EdTech =
     \<lparr>high =
        [''adaptive learning'', ''learning management system'', ''gamification engine'',
         ''spaced repetition'', ''intelligent tutoring''],
      medium =
        [''online learning'', ''quiz platform'', ''video streaming'', ''virtual classroom'',
         ''progress tracking'', ''assessment'', ''curriculum''],
      low =
        [''education'', ''learning'', ''teaching'', ''student'', ''course'', ''school'']\<rparr>"
| "DOMAIN_TECH SmartCities =
     \<lparr>high =
        [''traffic optimization'', ''urban planning ai'', ''smart grid'',
         ''waste management system'', ''gis'', ''geospatial''],
      medium =
        [''parking system'', ''public transport'', ''air quality'', ''water management'',
         ''surveillance'', ''civic engagement'', ''infrastructure''],
      low =
        [''city'', ''urban'', ''smart'', ''municipal'', ''public'']\<rparr>"
| "DOMAIN_TECH AgriTech =
     \<lparr>high =
        [''precision agriculture'', ''crop disease detection'', ''soil analysis'',
         ''drone mapping'', ''yield prediction''],
      medium =
        [''irrigation'', ''farm management'', ''livestock'', ''weather prediction'',
         ''supply chain'', ''marketplace''],
      low =
        [''agriculture'', ''farming'', ''crop'', ''plant'', ''food'']\<rparr>"
| "DOMAIN_TECH Sustainability =
     \<lparr>high =
        [''carbon footprint calculator'', ''renewable energy optimization'',
         ''circular economy'', ''life cycle assessment''],
      medium =
        [''solar'', ''wind energy'', ''recycling'', ''emission tracking'',
         ''sustainable supply chain'', ''green energy''],
      low =
        [''sustainability'', ''environment'', ''green'', ''eco'', ''climate'']\<rparr>"
| "DOMAIN_TECH Gaming =
     \<lparr>high =
        [''game engine'', ''procedural generation'', ''multiplayer networking'',
         ''physics simulation'', ''shader programming''],
      medium =
        [''unity'', ''unreal'', ''godot'', ''webgl'', ''3d rendering'', ''ai npc'',
         ''level design'', ''matchmaking''],
      low =
        [''game'', ''gaming'', ''play'', ''player'', ''interactive'']\<rparr>"
| "DOMAIN_TECH SocialImpact =
     \<lparr>high =
        [''impact measurement'', ''beneficiary tracking'', ''social enterprise model'',
         ''inclusive design''],
      medium =
        [''ngo platform'', ''donation tracking'', ''volunteer management'',
         ''accessibility'', ''community engagement''],
      low =
        [''social'', ''community'', ''impact'', ''help'', ''charity'']\<rparr>"
| "DOMAIN_TECH Other =
     \<lparr>high =
        [''microservices'', ''distributed systems'', ''real-time processing'', ''graphql'',
         ''grpc''],
      medium =
        [''api'', ''database'', ''cloud'', ''docker'', ''kubernetes'', ''ci/cd'', ''rest'',
         ''websocket''],
      low =
        [''web'', ''app'', ''platform'', ''system'', ''tool'']\<rparr>"

definition TECH_COMPLEXITY_HIGH :: "string list" where
  "TECH_COMPLEXITY_HIGH =
     [''microservices'', ''kubernetes'', ''docker'', ''ci/cd'', ''graphql'', ''grpc'',
      ''websocket'', ''real-time'', ''distributed'', ''load balancing'', ''caching'',
      ''redis'', ''elasticsearch'', ''message queue'', ''kafka'', ''rabbitmq'',
      ''serverless'', ''lambda'', ''terraform'', ''infrastructure as code'']"

definition TECH_COMPLEXITY_MEDIUM :: "string list" where
  "TECH_COMPLEXITY_MEDIUM =
     [''react'', ''next.js'', ''vue'', ''angular'', ''node.js'', ''express'', ''django'',
      ''flask'', ''fastapi'', ''spring boot'', ''postgresql'', ''mongodb'', ''firebase'',
      ''supabase'', ''aws'', ''azure'', ''gcp'', ''typescript'', ''tailwind'',
      ''authentication'', ''authorization'']"

definition innovationWords :: "string list" where
  "innovationWords =
     [''novel'', ''unique'', ''first'', ''pioneering'', ''revolutionary'', ''innovative'',
      ''breakthrough'', ''new approach'', ''rethink'', ''reimagine'', ''disrupt'',
      ''patent'', ''original'']"

definition genericWords :: "string list" where
  "genericWords =
     [''simple'', ''basic'', ''todo'', ''clone'', ''copy'', ''like uber'', ''like netflix'']"

definition impactWords :: "string list" where
  "impactWords =
     [''users'', ''millions'', ''scale'', ''solve'', ''problem'', ''community'',
      ''accessibility'', ''affordable'', ''real-world'', ''deployment'', ''production'',
      ''impact'', ''lives'', ''society'', ''reduce'', ''improve'', ''transform'']"

definition analyzeGitHubUrl :: "string \<Rightarrow> int" where
  \<comment> \<open>the \<open>score\<close> of \<open>analyzeGitHubUrl\<close>\<close>
  "analyzeGitHubUrl url =
     (if url = [] \<or> trim url = [] then 2
      else
        (let lower = trim (toLowerCase url);
             score =
               (if str_includes lower ''github.com/'' then
                  6 + (case urlMatch False (\<lambda>c. c \<noteq> CHR ''/'') lower of
                         None \<Rightarrow> 0
                       | Some (org, repo) \<Rightarrow>
                           (if length repo > 3
                               \<and> \<not> some (\<lambda>w. startsWith repo w)
                                     [''test'', ''demo'', ''sample'', ''example'', ''untitled'',
                                      ''my-app'', ''app'', ''project'']
                            then 1 else 0)
                           + (if org \<noteq> repo then 1 / 2 else 0))
                else if str_includes lower ''gitlab.com'' \<or> str_includes lower ''bitbucket.org''
                  then 5 + 1 / 2
                else 5 - 1)
         in clamp score))"

record DescriptionAnalysis =
  technicalDepth :: int
  innovationSignals :: int
  impactSignals :: int
  clarity :: int
  foundKeywords :: "string list"

definition hits :: "string \<Rightarrow> string list \<Rightarrow> string list" where
  \<comment> \<open>the words of a list that the text includes, in the order of the list\<close>
  "hits lower ws = filter (\<lambda>kw. str_includes lower kw) ws"

fun wordSearch :: "string list \<Rightarrow> bool \<Rightarrow> string \<Rightarrow> bool" where
  \<comment> \<open>a pattern \<open>\b(w1|w2|...)\b\<close> over words made of word characters: one of the words
      stands at some position, not preceded and not followed by a word character; the
      flag says that the previous character was a word character\<close>
  "wordSearch ws prev [] = False"
| "wordSearch ws prev (c # cs) =
     ((\<not> prev \<and> some (\<lambda>w. startsWith (c # cs) w
                          \<and> (case drop (length w) (c # cs) of
                                [] \<Rightarrow> True
                              | d # rest \<Rightarrow> \<not> isWordChar d)) ws)
      \<or> wordSearch ws (isWordChar c) cs)"

definition analyzeDescription :: "string \<Rightarrow> Domain \<Rightarrow> DescriptionAnalysis" where
  "analyzeDescription desc d =
     (let lower = toLowerCase desc;
          wordCount = length (splitWhitespace lower);
          sentences =
            filter (\<lambda>s. trim s \<noteq> [])
              (splitRuns (\<lambda>c. c = CHR ''.'' \<or> c = CHR ''!'' \<or> c = CHR ''?'') False [] desc);
          domainTech = DOMAIN_TECH d;
          hHigh = hits lower (high domainTech);
          hMedium = hits lower (medium domainTech);
          hLow = hits lower (low domainTech);
          hCHigh = hits lower TECH_COMPLEXITY_HIGH;
          hCMedium = hits lower TECH_COMPLEXITY_MEDIUM;
          found = hHigh @ hMedium @ hLow @ hCHigh @ hCMedium;
          techScore =
            3 + of_nat (length hHigh) * (15 / 10) + of_nat (length hMedium) * (8 / 10)
              + of_nat (length hLow) * (3 / 10) + of_nat (length hCHigh) * (7 / 10)
              + of_nat (length hCMedium) * (3 / 10);
          innovScore =
            3 + of_nat (length (hits lower innovationWords))
              - of_nat (length (hits lower genericWords));
          impactScore = 3 + of_nat (length (hits lower impactWords)) * (7 / 10);
          clarity =
            4 + (if wordCount \<ge> 30 then 1 else 0)
              + (if wordCount \<ge> 60 then 1 else 0)
              + (if wordCount \<ge> 100 then 1 / 2 else 0)
              + (if length sentences \<ge> 3 then 1 else 0)
              + (if length sentences \<ge> 5 then 1 / 2 else 0)
              + (if str_includes desc '','' then 3 / 10 else 0)
              + (if wordSearch [''we'', ''our'', ''team''] False lower then 3 / 10 else 0)
      in \<lparr>technicalDepth = clamp techScore, innovationSignals = clamp innovScore,
          impactSignals = clamp impactScore, clarity = clamp clarity,
          foundKeywords = uniq [] found\<rparr>)"

definition analyzePPT :: "Project \<Rightarrow> int" where
  \<comment> \<open>the \<open>score\<close> of \<open>analyzePPT\<close>\<close>
  "analyzePPT project =
     (if \<not> truthy (pptFile project) then 3
      else
        clamp
          (6
           + (case pptFileType project of
                None \<Rightarrow> 0
              | Some t \<Rightarrow> if str_includes t ''pdf'' then 1 else 0)
           + (if truthy (pptFileName project) then
                (let name = toLowerCase (the (pptFileName project))
                 in (if str_includes name
                          (hd (splitChar (CHR '' '') [] (toLowerCase (projectName project))))
                     then 1 else 0)
                    + (if \<not> some (\<lambda>w. startsWith name w)
                               [''untitled'', ''presentation'', ''document'', ''new'']
                       then 1 / 2 else 0))
              else 0)
           + (if length (the (pptFile project)) > 100000 then 1 / 2 else 0)
           + (if length (the (pptFile project)) > 500000 then 1 / 2 else 0)))"

definition analyzeTeam :: "string list \<Rightarrow> int" where
  \<comment> \<open>the \<open>score\<close> of \<open>analyzeTeam\<close>\<close>
  "analyzeTeam ms =
     (let count = length (filter (\<lambda>m. trim m \<noteq> []) ms)
      in if count = 0 then 4
         else if count = 1 then 5
         else if count = 2 then 6
         else if count \<ge> 3 \<and> count \<le> 4 then 8
         else if count \<ge> 5 then 7
         else 5)"

definition plagiarismPenalty :: "Project \<Rightarrow> int" where
  "plagiarismPenalty project =
     (if plagiarismScore project > 60 then - 2
      else if plagiarismScore project > 30 then - 1 else 0)"

definition hasGH :: "Project \<Rightarrow> bool" where
  \<comment> \<open>\<open>gh?.fetched === true\<close>\<close>
  "hasGH project = (case githubAnalysis project of None \<Rightarrow> False | Some gh \<Rightarrow> fetched gh)"

text \<open>
  \<open>Math.random()\<close> is a parameter: \<open>rnd k\<close> is the value of the \<open>k\<close>-th call of one
  evaluation, which makes six calls, one per jittered criterion and in this order:
  innovation, technical feasibility, impact, MVP completeness, code quality, originality.
\<close>

definition membersListed :: "Project \<Rightarrow> nat" where
  \<comment> \<open>\<open>project.members.filter(Boolean).length\<close>\<close>
  "membersListed project = length (filter (\<lambda>m. m \<noteq> []) (members project))"

definition innovationRaw :: "(nat \<Rightarrow> rat) \<Rightarrow> Project \<Rightarrow> int" where
  "innovationRaw rnd project =
     (let descAnalysis = analyzeDescription (description project) (domain project);
          nk = length (foundKeywords descAnalysis);
          r = Math_round
                (of_int (innovationSignals descAnalysis) * (1 / 2)
                 + (if nk \<ge> 3 then 2 else if nk \<ge> 1 then 1 else 0)
                 + (if domain project \<noteq> Other then 1 else 0)
                 + rnd 0 * (8 / 10))
      in if hasGH project \<and> isForked (the (githubAnalysis project)) then r - 2 else r)"

definition techRaw :: "(nat \<Rightarrow> rat) \<Rightarrow> Project \<Rightarrow> int" where
  "techRaw rnd project =
     (let descAnalysis = analyzeDescription (description project) (domain project)
      in if hasGH project then
           (let gh = the (githubAnalysis project);
                langCount = length (languages gh);
                langBonus = (if langCount \<ge> 3 then 2 else if langCount \<ge> 2 then 1 else 0)
            in Math_round
                 (of_int (technicalDepth descAnalysis) * (3 / 10)
                  + of_int (modularityScore gh) * (3 / 10)
                  + langBonus
                  + (if hasPackageJson gh then 1 else 0)
                  + (if hasCIConfig gh then 1 else 0)
                  + (if hasDockerfile gh then 1 / 2 else 0)
                  + rnd 1 * (5 / 10)))
         else
           Math_round
             (of_int (technicalDepth descAnalysis) * (4 / 10)
              + of_int (analyzeGitHubUrl (githubUrl project)) * (3 / 10)
              + of_nat (length (foundKeywords descAnalysis)) * (4 / 10)
              + rnd 1 * (5 / 10)))"

definition impactRaw :: "(nat \<Rightarrow> rat) \<Rightarrow> Project \<Rightarrow> int" where
  "impactRaw rnd project =
     (let descAnalysis = analyzeDescription (description project) (domain project)
      in Math_round
           (of_int (impactSignals descAnalysis) * (1 / 2)
            + (if domain project = HealthTech \<or> domain project = SocialImpact then 2 else 1)
            + of_int (analyzeTeam (members project)) * (2 / 10)
            + rnd 2 * (6 / 10)))"

definition mvpRaw :: "(nat \<Rightarrow> rat) \<Rightarrow> Project \<Rightarrow> int" where
  "mvpRaw rnd project =
     (let descAnalysis = analyzeDescription (description project) (domain project)
      in if hasGH project then
           (let gh = the (githubAnalysis project)
            in Math_round
                 ((if totalFiles gh \<ge> 10 then 3 else if totalFiles gh \<ge> 5 then 2 else 1)
                  + (if truthy (pptFile project) then 2 else 0)
                  + (if hasTests gh then 1 else 0)
                  + of_int (clarity descAnalysis) * (2 / 10)
                  + (if membersListed project > 0 then 1 else 0)
                  + rnd 3 * (5 / 10)))
         else
           Math_round
             ((if githubUrl project \<noteq> [] then 2 else 0)
              + (if truthy (pptFile project) then 2 else 0)
              + of_int (clarity descAnalysis) * (3 / 10)
              + (if membersListed project > 0 then 1 else 0)
              + (if length (foundKeywords descAnalysis) \<ge> 2 then 1 else 0)
              + rnd 3 * (5 / 10)))"

definition codeRaw :: "(nat \<Rightarrow> rat) \<Rightarrow> Project \<Rightarrow> int" where
  "codeRaw rnd project =
     (let descAnalysis = analyzeDescription (description project) (domain project)
      in if hasGH project then
           (let gh = the (githubAnalysis project)
            in Math_round
                 (of_int (cleanlinessScore gh) * (4 / 10)
                  + of_int (modularityScore gh) * (3 / 10)
                  + of_int (commitGenuineness gh) * (1 / 10)
                  + rnd 4 * (5 / 10)))
         else
           Math_round
             (of_int (analyzeGitHubUrl (githubUrl project)) * (6 / 10)
              + of_int (technicalDepth descAnalysis) * (3 / 10)
              + rnd 4 * (5 / 10)))"

definition origRaw :: "(nat \<Rightarrow> rat) \<Rightarrow> Project \<Rightarrow> int" where
  "origRaw rnd project =
     (let descAnalysis = analyzeDescription (description project) (domain project)
      in if hasGH project then
           (let gh = the (githubAnalysis project)
            in Math_round
                 (of_int (commitGenuineness gh) * (4 / 10)
                  + (if isForked gh then 1 else 4)
                  + (if isMirror gh then 0 else 1)
                  + of_int (innovationSignals descAnalysis) * (2 / 10)
                  + rnd 5 * (5 / 10)))
         else
           Math_round
             ((10 - of_int (plagiarismScore project) / 10) * (1 / 2)
              + of_int (innovationSignals descAnalysis) * (3 / 10)
              + (if length (foundKeywords descAnalysis) \<ge> 3 then 2 else 1)
              + rnd 5 * (5 / 10)))"

fun clampArgument :: "(nat \<Rightarrow> rat) \<Rightarrow> Project \<Rightarrow> CriterionKey \<Rightarrow> int" where
  \<comment> \<open>what each criterion hands to \<open>clamp\<close>\<close>
  "clampArgument rnd project innovation = innovationRaw rnd project + plagiarismPenalty project"
| "clampArgument rnd project technical_feasibility =
     techRaw rnd project + plagiarismPenalty project"
| "clampArgument rnd project impact = impactRaw rnd project + plagiarismPenalty project"
| "clampArgument rnd project mvp_completeness = mvpRaw rnd project + plagiarismPenalty project"
| "clampArgument rnd project presentation = analyzePPT project + plagiarismPenalty project"
| "clampArgument rnd project code_quality = codeRaw rnd project + plagiarismPenalty project"
| "clampArgument rnd project team_collaboration =
     (if hasGH project \<and> length (commitAuthors (the (githubAnalysis project))) > 0 then
        (let gh = the (githubAnalysis project);
             multiAuthor = (length (commitAuthors gh) \<ge> 2);
             balancedContrib = (singleAuthorPercent gh < 80)
         in analyzeTeam (members project)
            + (if multiAuthor then 1 else - 1)
            + (if balancedContrib then 1 else 0))
      else analyzeTeam (members project) + plagiarismPenalty project)"
| "clampArgument rnd project originality = origRaw rnd project + plagiarismPenalty project"

definition scoreOr0 :: "(CriterionKey \<rightharpoonup> int) \<Rightarrow> CriterionKey \<Rightarrow> int" where
  \<comment> \<open>\<open>scores[k] || 0\<close>\<close>
  "scoreOr0 sc k = (case sc k of None \<Rightarrow> 0 | Some v \<Rightarrow> v)"

definition verdictOf :: "rat \<Rightarrow> Verdict" where
  "verdictOf wt =
     (if wt \<ge> 8 then Outstanding
      else if wt \<ge> 65 / 10 then Impressive
      else if wt \<ge> 5 then Promising
      else if wt \<ge> 35 / 10 then NeedsWork
      else Incomplete)"

definition scoreProjectWithAI :: "(nat \<Rightarrow> rat) \<Rightarrow> Project \<Rightarrow> AIScoreResult" where
  "scoreProjectWithAI rnd project =
     (let sc = [innovation \<mapsto> clamp (of_int (clampArgument rnd project innovation)),
                technical_feasibility \<mapsto>
                  clamp (of_int (clampArgument rnd project technical_feasibility)),
                impact \<mapsto> clamp (of_int (clampArgument rnd project impact)),
                mvp_completeness \<mapsto> clamp (of_int (clampArgument rnd project mvp_completeness)),
                presentation \<mapsto> clamp (of_int (clampArgument rnd project presentation)),
                code_quality \<mapsto> clamp (of_int (clampArgument rnd project code_quality)),
                team_collaboration \<mapsto>
                  clamp (of_int (clampArgument rnd project team_collaboration)),
                originality \<mapsto> clamp (of_int (clampArgument rnd project originality))];
          wt = foldl (\<lambda>sum c. sum + of_int (scoreOr0 sc (key c)) * weight c) 0 CRITERIA
      in \<lparr>scores = sc,
          weightedTotal = of_int (Math_round (wt * 100)) / 100,
          overallVerdict = verdictOf wt\<rparr>)"


section \<open>Verification gate and mentorship\<close>

datatype CheckStatus = Pass | Warn | Fail

record VerificationCheck =
  name :: string
  status :: CheckStatus

datatype Summary = VerificationFailed | PartialVerification | VerifiedWithWarnings | FullyVerified

record VerificationResult =
  passed :: bool
  checks :: "VerificationCheck list"
  summary :: Summary

text \<open>
  \<open>verifyProject\<close> runs its six checks one after the other on three variables: the list
  \<open>checks\<close> and the counters \<open>failCount\<close> and \<open>warnCount\<close>. Each check is a step on this
  state. The \<open>detail\<close> text of a check is not modelled, and the four summary sentences
  are an enumeration.
\<close>

record VerifyState =
  vChecks :: "VerificationCheck list"
  failCount :: nat
  warnCount :: nat

definition pushCheck :: "string \<Rightarrow> CheckStatus \<Rightarrow> VerifyState \<Rightarrow> VerifyState" where
  \<comment> \<open>\<open>checks.push(...)\<close>, with \<open>warnCount++\<close> or \<open>failCount++\<close> where the branch has it\<close>
  "pushCheck n st s =
     s\<lparr>vChecks := vChecks s @ [\<lparr>name = n, status = st\<rparr>],
       failCount := (if st = Fail then failCount s + 1 else failCount s),
       warnCount := (if st = Warn then warnCount s + 1 else warnCount s)\<rparr>"

definition checkDescription :: "Project \<Rightarrow> VerifyState \<Rightarrow> VerifyState" where
  "checkDescription project s =
     (let descLen = length (trim (description project))
      in if descLen \<ge> 50 then pushCheck ''Description'' Pass s
         else if descLen \<ge> 15 then pushCheck ''Description'' Warn s
         else pushCheck ''Description'' Fail s)"

definition checkGitHub :: "Project \<Rightarrow> VerifyState \<Rightarrow> VerifyState" where
  "checkGitHub project s =
     (if (case githubAnalysis project of
            None \<Rightarrow> False
          | Some gh \<Rightarrow> fetched gh \<and> totalCommits gh > 0)
      then pushCheck ''GitHub Repo'' Pass s
      else if trim (githubUrl project) \<noteq> [] then
        (if (case githubAnalysis project of None \<Rightarrow> True | Some gh \<Rightarrow> \<not> fetched gh)
         then pushCheck ''GitHub Repo'' Warn s
         else pushCheck ''GitHub Repo'' Warn s)
      else pushCheck ''GitHub Repo'' Fail s)"

definition checkAIScores :: "Project \<Rightarrow> VerifyState \<Rightarrow> VerifyState" where
  "checkAIScores project s =
     (if (case aiScores project of None \<Rightarrow> False | Some ai \<Rightarrow> weightedTotal ai > 0)
      then pushCheck ''AI Scoring'' Pass s
      else pushCheck ''AI Scoring'' Fail s)"

definition checkPlagiarism :: "Project \<Rightarrow> VerifyState \<Rightarrow> VerifyState" where
  "checkPlagiarism project s =
     (case plagiarismDetails project of
        Some pd \<Rightarrow>
          if plagiarismScore project > 60 then pushCheck ''Plagiarism'' Warn s
          else pushCheck ''Plagiarism'' Pass s
      | None \<Rightarrow> pushCheck ''Plagiarism'' Warn s)"

definition checkTeam :: "Project \<Rightarrow> VerifyState \<Rightarrow> VerifyState" where
  "checkTeam project s =
     (let memberCount = membersListed project
      in if memberCount \<ge> 2 then pushCheck ''Team'' Pass s
         else if memberCount = 1 then pushCheck ''Team'' Pass s
         else pushCheck ''Team'' Warn s)"

definition checkDomain :: "Project \<Rightarrow> VerifyState \<Rightarrow> VerifyState" where
  "checkDomain project s =
     (if domain project \<noteq> Other then pushCheck ''Domain'' Pass s
      else pushCheck ''Domain'' Warn s)"

definition verifyProject :: "Project \<Rightarrow> VerificationResult" where
  "verifyProject project =
     (let s = checkDomain project (checkTeam project (checkPlagiarism project
                (checkAIScores project (checkGitHub project (checkDescription project
                   \<lparr>vChecks = [], failCount = 0, warnCount = 0\<rparr>)))))
      in \<lparr>passed = (failCount s = 0),
          checks = vChecks s,
          summary =
            (if failCount s \<ge> 2 then VerificationFailed
             else if failCount s = 1 then PartialVerification
             else if warnCount s \<ge> 3 then VerifiedWithWarnings
             else FullyVerified)\<rparr>)"

record MentorshipAdvice =
  area :: string
  currentState :: string
  recommendation :: string
  priority :: string
  effort :: string

record Mentorship =
  improvements :: "MentorshipAdvice list"
  actionPlan :: "string list"
  techSuggestions :: "string list"
  overallAdvice :: string

record MentorshipResult = Mentorship +
  verification :: VerificationResult

text \<open>
  What \<open>generateMentorship\<close> gets from outside is a parameter: the answer of the backend
  proxy (\<open>getMentorshipViaBackend\<close> catches every error itself and answers \<open>null\<close>), the
  API key, the outcome of the direct request to the language model (the parsed tool
  call with its optional fields, or the error thrown on the way to it), and the
  rule-based advice of \<open>generateFallbackMentorship\<close>, whose text templates are not
  modelled. The requests made are recorded in order beside the result.
\<close>

record BackendMentorship = Mentorship +
  fallback :: bool

record ParsedMentorship =
  parsedImprovements :: "MentorshipAdvice list option"
  parsedActionPlan :: "string list option"
  parsedTechSuggestions :: "string list option"
  parsedOverallAdvice :: "string option"

record MentorWorld =
  backendAnswer :: "Project \<Rightarrow> BackendMentorship option"
  XAI_API_KEY :: "string option"
  xaiAnswer :: "Project \<Rightarrow> string + ParsedMentorship"
  generateFallbackMentorship :: "Project \<Rightarrow> VerificationResult \<Rightarrow> MentorshipResult"

datatype Request = BackendRequest | XaiRequest

definition listOr :: "'a list option \<Rightarrow> 'a list" where
  \<comment> \<open>\<open>xs || []\<close>\<close>
  "listOr xs = (case xs of None \<Rightarrow> [] | Some v \<Rightarrow> v)"

definition generateMentorship :: "MentorWorld \<Rightarrow> Project \<Rightarrow> MentorshipResult \<times> Request list" where
  "generateMentorship world project =
     (let v = verifyProject project;
          criticalFails = length (filter (\<lambda>c. status c = Fail) (checks v))
      in if criticalFails \<ge> 2 then
           (\<lparr>improvements = [],
             actionPlan = [''Fix the verification issues above before requesting AI mentorship.''],
             techSuggestions = [],
             overallAdvice = ''Project needs more data before meaningful mentorship can be provided. Ensure AI scoring is done and a description is provided.'',
             verification = v\<rparr>, [])
         else
           (case (case backendAnswer world project of
                    None \<Rightarrow> None
                  | Some b \<Rightarrow> if fallback b then None else Some b) of
              Some b \<Rightarrow>
                (\<lparr>improvements = improvements b, actionPlan = actionPlan b,
                  techSuggestions = techSuggestions b, overallAdvice = overallAdvice b,
                  verification = v\<rparr>, [BackendRequest])
            | None \<Rightarrow>
                if \<not> truthy (XAI_API_KEY world) then
                  (generateFallbackMentorship world project v, [BackendRequest])
                else
                  (case xaiAnswer world project of
                     Inr parsed \<Rightarrow>
                       (\<lparr>improvements = listOr (parsedImprovements parsed),
                         actionPlan = listOr (parsedActionPlan parsed),
                         techSuggestions = listOr (parsedTechSuggestions parsed),
                         overallAdvice =
                           (if truthy (parsedOverallAdvice parsed)
                            then the (parsedOverallAdvice parsed) else []),
                         verification = v\<rparr>, [BackendRequest, XaiRequest])
                   | Inl err \<Rightarrow>
                       (generateFallbackMentorship world project v,
                        [BackendRequest, XaiRequest]))))"


section \<open>Notions used in the statements\<close>

definition criticalFails :: "Project \<Rightarrow> nat" where
  \<comment> \<open>the number of checks of \<open>verifyProject\<close> with status fail\<close>
  "criticalFails p = length (filter (\<lambda>c. status c = Fail) (checks (verifyProject p)))"

definition failsOf :: "VerifyState \<Rightarrow> nat" where
  "failsOf s = length (filter (\<lambda>c. status c = Fail) (vChecks s))"

definition runChecks :: "Project \<Rightarrow> VerifyState" where
  \<comment> \<open>the state of \<open>verifyProject\<close> after its six checks\<close>
  "runChecks project =
     checkDomain project (checkTeam project (checkPlagiarism project
       (checkAIScores project (checkGitHub project (checkDescription project
          \<lparr>vChecks = [], failCount = 0, warnCount = 0\<rparr>)))))"

definition inRanges :: "GitHubAnalysis \<Rightarrow> bool" where
  \<comment> \<open>the documented ranges of the scores of a repository analysis\<close>
  "inRanges a =
     (1 \<le> modularityScore a \<and> modularityScore a \<le> 10
      \<and> 1 \<le> cleanlinessScore a \<and> cleanlinessScore a \<le> 10
      \<and> 1 \<le> commitGenuineness a \<and> commitGenuineness a \<le> 10
      \<and> 1 \<le> overallRepoScore a \<and> overallRepoScore a \<le> 10
      \<and> 0 \<le> burstCommitScore a \<and> burstCommitScore a \<le> 100
      \<and> 0 \<le> singleAuthorPercent a \<and> singleAuthorPercent a \<le> 100)"

fun rawScore :: "(nat \<Rightarrow> rat) \<Rightarrow> Project \<Rightarrow> CriterionKey \<Rightarrow> int" where
  \<comment> \<open>the raw score of a criterion, before the plagiarism penalty\<close>
  "rawScore rnd project innovation = innovationRaw rnd project"
| "rawScore rnd project technical_feasibility = techRaw rnd project"
| "rawScore rnd project impact = impactRaw rnd project"
| "rawScore rnd project mvp_completeness = mvpRaw rnd project"
| "rawScore rnd project presentation = analyzePPT project"
| "rawScore rnd project code_quality = codeRaw rnd project"
| "rawScore rnd project team_collaboration = analyzeTeam (members project)"
| "rawScore rnd project originality = origRaw rnd project"

definition repoAuthors :: "Project \<Rightarrow> bool" where
  \<comment> \<open>the condition of the first branch of team collaboration: a fetched analysis with
      at least one commit author\<close>
  "repoAuthors project =
     (hasGH project \<and> length (commitAuthors (the (githubAnalysis project))) > 0)"

definition gaps :: "int list \<Rightarrow> int list" where
  \<comment> \<open>the gaps between consecutive timestamps\<close>
  "gaps ts = map (\<lambda>(a, b). b - a) (zip ts (tl ts))"

definition meanGapHours :: "int list \<Rightarrow> rat" where
  \<comment> \<open>the mean gap between consecutive timestamps, in hours; 0 when there is no gap\<close>
  "meanGapHours ts =
     (if gaps ts = [] then 0
      else of_int (sum_list (gaps ts)) / of_nat (length (gaps ts)) / 3600000)"

definition distinctDays :: "int list \<Rightarrow> nat" where
  \<comment> \<open>the number of calendar days (UTC) on which the timestamps fall\<close>
  "distinctDays ts = card (dayOf ` set ts)"

definition spanHours :: "int list \<Rightarrow> rat" where
  \<comment> \<open>the time from the first to the last of the sorted timestamps, in hours\<close>
  "spanHours ts = (if ts = [] then 0 else of_int (last ts - hd ts) / 3600000)"

definition burstClaimed :: "int list \<Rightarrow> string list \<Rightarrow> int" where
  \<comment> \<open>the burst score as the specification words it, from the sorted commit timestamps
      and the commit messages\<close>
  "burstClaimed ts msgs =
     (let n = length ts;
          base =
            (if n \<le> 2 then 70
             else if distinctDays ts = 1 then 90
             else if spanHours ts < 4 then 85
             else if distinctDays ts \<le> 2 \<and> n > 5 then 65
             else if meanGapHours ts < 1 / 2 \<and> n > 3 then 60
             else if distinctDays ts \<ge> 3 \<and> meanGapHours ts \<ge> 2 then 15
             else 30)
      in if of_nat (length (filter genericMessage msgs)) > (6 / 10 :: rat) * of_nat (length msgs)
         then min (base + 20) 100 else base)"

definition sumGapHours :: "int list \<Rightarrow> rat" where
  \<comment> \<open>the gaps in hours, each a double, added up in double arithmetic from the first
      gap to the last\<close>
  "sumGapHours ts =
     foldl (\<lambda>acc g. toDouble (acc + toDouble (toDouble (of_int g) / 3600000))) 0 (gaps ts)"

definition roundedMeanGap :: "int list \<Rightarrow> rat" where
  \<comment> \<open>the mean gap in hours, computed in double arithmetic and rounded to one decimal;
      0 when there is no gap\<close>
  "roundedMeanGap ts =
     (if gaps ts = [] then 0
      else toDouble
             (of_int (Math_round
                (toDouble (toDouble (sumGapHours ts / of_nat (length (gaps ts))) * 10))) / 10))"

definition burstAmended :: "nat \<Rightarrow> int list \<Rightarrow> string list \<Rightarrow> int" where
  \<comment> \<open>the amended wording: \<open>n\<close> commits, of which \<open>ts\<close> are the valid timestamps in
      ascending order; no commits give 100, and the mean gap is the one computed in
      double arithmetic and rounded to one decimal\<close>
  "burstAmended n ts msgs =
     (if n = 0 then 100
      else
        (let avg = roundedMeanGap ts;
             base =
               (if n \<le> 2 then 70
                else if distinctDays ts = 1 then 90
                else if spanHours ts < 4 then 85
                else if distinctDays ts \<le> 2 \<and> n > 5 then 65
                else if avg < 1 / 2 \<and> n > 3 then 60
                else if distinctDays ts \<ge> 3 \<and> avg \<ge> 2 then 15
                else 30)
         in if of_nat (length (filter genericMessage msgs)) > (6 / 10 :: rat) * of_nat n
            then min (base + 20) 100 else base))"


section \<open>Example inputs\<close>

definition noJitter :: "nat \<Rightarrow> rat" where
  \<comment> \<open>every call of \<open>Math.random()\<close> answers 0\<close>
  "noJitter k = 0"

definition blankProject :: Project where
  \<comment> \<open>a submission with nothing filled in\<close>
  "blankProject =
     \<lparr>teamName = ''team'', projectName = ''project'', githubUrl = [], description = [],
      domain = Other, pptFile = None, pptFileName = None, pptFileType = None,
      aiScores = None, githubAnalysis = None, plagiarismScore = 0,
      plagiarismDetails = None, members = []\<rparr>"

definition unscoredProject :: Project where
  \<comment> \<open>described, with a repository link and a team, but not scored yet\<close>
  "unscoredProject =
     blankProject\<lparr>githubUrl := ''https://github.com/team/clinic-queue'',
       description := ''A queue manager for small clinics that texts patients when their turn is near.'',
       domain := HealthTech, members := [''Ada'', ''Lin'']\<rparr>"

definition someAdvice :: Mentorship where
  "someAdvice =
     \<lparr>improvements =
        [\<lparr>area = ''Testing'', currentState = ''no tests'', recommendation = ''add tests'',
          priority = ''medium'', effort = ''quick-fix''\<rparr>],
      actionPlan = [''write tests''], techSuggestions = [''a test runner''],
      overallAdvice = ''keep going''\<rparr>"

definition exampleWorld :: MentorWorld where
  \<comment> \<open>a world in which the backend proxy answers with advice\<close>
  "exampleWorld =
     \<lparr>backendAnswer = (\<lambda>p. Some (Mentorship.extend someAdvice (BackendMentorship.fields False))),
      XAI_API_KEY = None,
      xaiAnswer = (\<lambda>p. Inl ''unreachable''),
      generateFallbackMentorship =
        (\<lambda>p v. Mentorship.extend someAdvice (MentorshipResult.fields v))\<rparr>"

definition forkedRepo :: GitHubAnalysis where
  \<comment> \<open>a fetched fork: 50 commits with a healthy commit pattern\<close>
  "forkedRepo =
     (createEmptyAnalysis [])\<lparr>fetched := True, error := None, isForked := True,
        totalCommits := 50, burstCommitScore := 15, singleAuthorPercent := 40\<rparr>"

definition oneCommit :: "int \<Rightarrow> string \<Rightarrow> GitHubCommitRaw" where
  \<comment> \<open>a commit by one author, at a time in milliseconds, with a message\<close>
  "oneCommit t m =
     \<lparr>commit_author_name = Some ''ada'', commit_author_date = Some (ValidDate t),
      commit_committer_date = Some (ValidDate t), commit_message = Some m,
      author_login = Some ''ada''\<rparr>"

definition blob :: "string \<Rightarrow> TreeItemRaw" where
  "blob p = \<lparr>path = p, item_type = ''blob''\<rparr>"

definition plainRepo :: RepoInfo where
  "plainRepo =
     \<lparr>default_branch = Some ''main'', fork = False, mirror_url = None,
      info_description = None\<rparr>"

definition flatRepoApi :: GitHubApi where
  \<comment> \<open>a repository with one commit and four files in its root folder\<close>
  "flatRepoApi =
     \<lparr>getRepo = (\<lambda>u. Inr plainRepo),
      getCommits = (\<lambda>u. Inr [oneCommit 1700000000000 ''prototype'']),
      getLanguages = (\<lambda>u. Inr [(''Python'', 2048)]),
      getTree = (\<lambda>u b. Inr [blob ''main.py'', blob ''model.py'', blob ''util.py'',
                             blob ''data.csv''])\<rparr>"

definition toolingRepoApi :: GitHubApi where
  \<comment> \<open>one commit with a generic message; four files in the root folder, three of them
      tooling\<close>
  "toolingRepoApi =
     \<lparr>getRepo = (\<lambda>u. Inr plainRepo),
      getCommits = (\<lambda>u. Inr [oneCommit 1700000000000 ''Initial commit'']),
      getLanguages = (\<lambda>u. Inr [(''Python'', 2048)]),
      getTree = (\<lambda>u b. Inr [blob ''main.py'', blob ''Dockerfile'', blob ''Jenkinsfile'',
                             blob ''.env.example''])\<rparr>"

definition notFoundApi :: GitHubApi where
  \<comment> \<open>every request is answered with status 404\<close>
  "notFoundApi =
     \<lparr>getRepo = (\<lambda>u. Inl ''GitHub API 404: Not Found''),
      getCommits = (\<lambda>u. Inl ''GitHub API 404: Not Found''),
      getLanguages = (\<lambda>u. Inl ''GitHub API 404: Not Found''),
      getTree = (\<lambda>u b. Inl ''GitHub API 404: Not Found'')\<rparr>"

definition tieCommits :: "GitHubCommitRaw list" where
  \<comment> \<open>14 commits, one every 1.95 hours, from 23:00 of a first day into a third day\<close>
  "tieCommits = map (\<lambda>k. oneCommit (82800000 + int k * 7020000) ''work'') [0..<14]"

definition rateLimitedApi :: GitHubApi where
  \<comment> \<open>the repository request is answered; the three others are refused with status 403\<close>
  "rateLimitedApi =
     \<lparr>getRepo = (\<lambda>u. Inr plainRepo),
      getCommits = (\<lambda>u. Inl ''GitHub API 403: rate limit exceeded''),
      getLanguages = (\<lambda>u. Inl ''GitHub API 403: rate limit exceeded''),
      getTree = (\<lambda>u b. Inl ''GitHub API 403: rate limit exceeded'')\<rparr>"

definition rateLimitedAnalysis :: GitHubAnalysis where
  "rateLimitedAnalysis = analyzeGitHubRepo rateLimitedApi ''https://github.com/team/flat''"

definition flatRepoAnalysis :: GitHubAnalysis where
  "flatRepoAnalysis = analyzeGitHubRepo flatRepoApi ''https://github.com/team/flat''"

definition toolingRepoAnalysis :: GitHubAnalysis where
  "toolingRepoAnalysis = analyzeGitHubRepo toolingRepoApi ''https://github.com/team/tooling''"

definition repoProject :: Project where
  \<comment> \<open>a submission whose repository was fetched: one commit author\<close>
  "repoProject =
     blankProject\<lparr>githubUrl := ''https://github.com/team/flat'',
       githubAnalysis := Some (analyzeGitHubRepo flatRepoApi ''https://github.com/team/flat'')\<rparr>"

definition steadyCommits :: "GitHubCommitRaw list" where
  \<comment> \<open>14 commits, one every 1.96 hours, from 23:00 of a first day into a third day\<close>
  "steadyCommits = map (\<lambda>k. oneCommit (82800000 + int k * 7056000) ''work'') [0..<14]"


section \<open>Properties\<close>

subsection \<open>Rounding and clamping\<close>

lemma clamp_range: "1 \<le> clamp v \<and> clamp v \<le> 10"
  by (simp add: clamp_def)

subsection \<open>Plagiarism detector\<close>

lemma overallScore_blend:
  "overallScore (analyzePlagiarism url desc pname gh) =
     max 5 (min (Math_round
        (of_int (commitHistoryScore (analyzePlagiarism url desc pname gh)) * (40 / 100)
         + of_int (aiPatternScore (analyzePlagiarism url desc pname gh)) * (20 / 100)
         + of_int (codeModularityScore (analyzePlagiarism url desc pname gh)) * (15 / 100)
         + of_int (boilerplateScore (analyzePlagiarism url desc pname gh)) * (15 / 100)
         + of_int (keywordDensity (analyzePlagiarism url desc pname gh)) * (10 / 100))) 100)"
  unfolding analyzePlagiarism_def Let_def split_def
  by (simp only: PlagiarismDetails.simps)

lemma overallScore_range:
  "5 \<le> overallScore (analyzePlagiarism url desc pname gh)
   \<and> overallScore (analyzePlagiarism url desc pname gh) \<le> 100"
proof -
  have "5 \<le> max 5 (min x 100) \<and> max 5 (min x 100) \<le> 100" for x :: int
    by simp
  then show ?thesis
    by (simp only: overallScore_blend)
qed

text \<open>
  C3. For every input the overall plagiarism score is the weighted blend of the five
  sub-scores (commit history 0.40, AI pattern 0.20, code modularity 0.15, boilerplate
  0.15, keyword density 0.10), rounded and then clamped to the range from 5 to 100; so
  it is never below 5.
\<close>

theorem plagiarism_overall_score:
  "let r = analyzePlagiarism url desc pname gh
   in overallScore r =
        max 5 (min (Math_round (of_int (commitHistoryScore r) * (40 / 100)
                                + of_int (aiPatternScore r) * (20 / 100)
                                + of_int (codeModularityScore r) * (15 / 100)
                                + of_int (boilerplateScore r) * (15 / 100)
                                + of_int (keywordDensity r) * (10 / 100))) 100)
      \<and> 5 \<le> overallScore r \<and> overallScore r \<le> 100"
  unfolding Let_def
  using overallScore_blend [of url desc pname gh] overallScore_range [of url desc pname gh]
  by (simp only: simp_thms)

theorem plagiarism_overall_score_witness:
  "overallScore (analyzePlagiarism [] ''a robust tool'' ''tool'' None) = 35"
proof -
  let ?r = "analyzePlagiarism [] ''a robust tool'' ''tool'' None"
  have v: "commitHistoryScore ?r = 55" "aiPatternScore ?r = 20" "codeModularityScore ?r = 60"
    "boilerplateScore ?r = 0" "keywordDensity ?r = 0"
    by code_simp+
  from plagiarism_overall_score [of "[]" "''a robust tool''" "''tool''" None]
  have "overallScore ?r =
      max 5 (min (Math_round (of_int (commitHistoryScore ?r) * (40 / 100)
                                + of_int (aiPatternScore ?r) * (20 / 100)
                                + of_int (codeModularityScore ?r) * (15 / 100)
                                + of_int (boilerplateScore ?r) * (15 / 100)
                                + of_int (keywordDensity ?r) * (10 / 100))) 100)"
    by (simp only: Let_def)
  moreover have "max 5 (min (Math_round (of_int 55 * (40 / 100) + of_int 20 * (20 / 100)
      + of_int 60 * (15 / 100) + of_int 0 * (15 / 100) + of_int 0 * (10 / 100))) 100) = (35::int)"
    by code_simp
  ultimately show ?thesis
    by (simp only: v)
qed

lemma commitHistoryRisk_forked: "isForked gh \<Longrightarrow> 85 \<le> commitHistoryRisk gh"
  by (simp add: commitHistoryRisk_def Let_def)

lemma commitHistoryScore_fetched:
  "fetched gh \<Longrightarrow>
     commitHistoryScore (analyzePlagiarism url desc pname (Some gh)) = commitHistoryRisk gh"
  unfolding analyzePlagiarism_def Let_def split_def
  by simp

text \<open>
  C4. For a fetched analysis of a forked repository the commit-history risk is at least
  85, whatever the burst score, the authors and the number of commits are: the fork sets
  it to 85 (a mirror to 90) and every later adjustment is a maximum.
\<close>

theorem fork_floor:
  "fetched gh \<Longrightarrow> isForked gh \<Longrightarrow>
     85 \<le> commitHistoryScore (analyzePlagiarism url desc pname (Some gh))"
  by (simp only: commitHistoryScore_fetched commitHistoryRisk_forked)

theorem fork_floor_witness:
  "fetched forkedRepo \<and> isForked forkedRepo \<and> burstCommitScore forkedRepo = 15
   \<and> 85 \<le> commitHistoryScore
              (analyzePlagiarism ''https://github.com/a/b'' ''a tool'' ''tool'' (Some forkedRepo))"
proof -
  have f: "fetched forkedRepo" and k: "isForked forkedRepo"
    and b: "burstCommitScore forkedRepo = 15"
    by (simp_all add: forkedRepo_def createEmptyAnalysis_def)
  from fork_floor [OF f k, of "''https://github.com/a/b''" "''a tool''" "''tool''"] f k b
  show ?thesis by (simp only: simp_thms)
qed

subsection \<open>Verification gate\<close>

lemma pushCheck_count:
  "failCount s = failsOf s \<Longrightarrow> failCount (pushCheck n st s) = failsOf (pushCheck n st s)"
  by (simp add: pushCheck_def failsOf_def)

lemma checkDescription_count:
  "failCount s = failsOf s \<Longrightarrow> failCount (checkDescription p s) = failsOf (checkDescription p s)"
  by (simp add: checkDescription_def Let_def pushCheck_count)

lemma checkGitHub_count:
  "failCount s = failsOf s \<Longrightarrow> failCount (checkGitHub p s) = failsOf (checkGitHub p s)"
  by (simp add: checkGitHub_def pushCheck_count)

lemma checkAIScores_count:
  "failCount s = failsOf s \<Longrightarrow> failCount (checkAIScores p s) = failsOf (checkAIScores p s)"
  by (simp add: checkAIScores_def pushCheck_count)

lemma checkPlagiarism_count:
  "failCount s = failsOf s \<Longrightarrow> failCount (checkPlagiarism p s) = failsOf (checkPlagiarism p s)"
  by (simp add: checkPlagiarism_def pushCheck_count split: option.splits)

lemma checkTeam_count:
  "failCount s = failsOf s \<Longrightarrow> failCount (checkTeam p s) = failsOf (checkTeam p s)"
  by (simp add: checkTeam_def Let_def pushCheck_count)

lemma checkDomain_count:
  "failCount s = failsOf s \<Longrightarrow> failCount (checkDomain p s) = failsOf (checkDomain p s)"
  by (simp add: checkDomain_def pushCheck_count)

text \<open>The counter \<open>failCount\<close> and the statuses in \<open>checks\<close> agree after the six checks.\<close>

lemma runChecks_count: "failCount (runChecks p) = failsOf (runChecks p)"
  unfolding runChecks_def
  by (intro checkDomain_count checkTeam_count checkPlagiarism_count checkAIScores_count
        checkGitHub_count checkDescription_count) (simp add: failsOf_def)

lemma verifyProject_run:
  "passed (verifyProject p) = (failCount (runChecks p) = 0)"
  "checks (verifyProject p) = vChecks (runChecks p)"
  by (simp_all add: verifyProject_def runChecks_def Let_def)

lemma passed_criticalFails: "passed (verifyProject p) = (criticalFails p = 0)"
  by (simp add: verifyProject_run criticalFails_def runChecks_count failsOf_def)

lemma names_push: "map name (vChecks (pushCheck n st s)) = map name (vChecks s) @ [n]"
  by (simp add: pushCheck_def)

lemma check_names:
  "map name (vChecks (checkDescription p s)) = map name (vChecks s) @ [''Description'']"
  "map name (vChecks (checkGitHub p s)) = map name (vChecks s) @ [''GitHub Repo'']"
  "map name (vChecks (checkAIScores p s)) = map name (vChecks s) @ [''AI Scoring'']"
  "map name (vChecks (checkPlagiarism p s)) = map name (vChecks s) @ [''Plagiarism'']"
  "map name (vChecks (checkTeam p s)) = map name (vChecks s) @ [''Team'']"
  "map name (vChecks (checkDomain p s)) = map name (vChecks s) @ [''Domain'']"
  by (simp_all add: checkDescription_def checkGitHub_def checkAIScores_def checkPlagiarism_def
        checkTeam_def checkDomain_def Let_def names_push split: option.splits)

lemma six_checks:
  "map name (checks (verifyProject p)) =
     [''Description'', ''GitHub Repo'', ''AI Scoring'', ''Plagiarism'', ''Team'', ''Domain'']"
  by (simp add: verifyProject_run runChecks_def check_names)

lemma fails_push:
  "failsOf (pushCheck n st s) = failsOf s + (if st = Fail then 1 else 0)"
  by (simp add: pushCheck_def failsOf_def)

lemma fails_mono:
  "failsOf s \<le> failsOf (checkDescription p s)"
  "failsOf s \<le> failsOf (checkGitHub p s)"
  "failsOf s \<le> failsOf (checkAIScores p s)"
  "failsOf s \<le> failsOf (checkPlagiarism p s)"
  "failsOf s \<le> failsOf (checkTeam p s)"
  "failsOf s \<le> failsOf (checkDomain p s)"
  by (simp_all add: checkDescription_def checkGitHub_def checkAIScores_def checkPlagiarism_def
        checkTeam_def checkDomain_def Let_def fails_push split: option.splits)

lemma failsOf_init: "failsOf \<lparr>vChecks = [], failCount = 0, warnCount = 0\<rparr> = 0"
  by (simp add: failsOf_def)

lemma short_and_unscored:
  assumes "length (trim (description p)) \<le> 14" and "aiScores p = None"
  shows "2 \<le> criticalFails p"
proof -
  let ?s0 = "\<lparr>vChecks = [], failCount = 0, warnCount = 0\<rparr>"
  let ?s1 = "checkDescription p ?s0"
  let ?s2 = "checkGitHub p ?s1"
  let ?s3 = "checkAIScores p ?s2"
  have "failsOf ?s1 = 1"
    using assms(1) by (simp add: checkDescription_def Let_def fails_push failsOf_init)
  then have "1 \<le> failsOf ?s2" using fails_mono(2) [of ?s1 p] by simp
  moreover have "failsOf ?s3 = failsOf ?s2 + 1"
    using assms(2) by (simp add: checkAIScores_def fails_push)
  ultimately have "2 \<le> failsOf ?s3" by simp
  also have "\<dots> \<le> failsOf (checkPlagiarism p ?s3)" by (rule fails_mono)
  also have "\<dots> \<le> failsOf (checkTeam p (checkPlagiarism p ?s3))" by (rule fails_mono)
  also have "\<dots> \<le> failsOf (checkDomain p (checkTeam p (checkPlagiarism p ?s3)))"
    by (rule fails_mono)
  finally show ?thesis
    by (simp add: criticalFails_def verifyProject_run runChecks_def failsOf_def)
qed

lemma gate_blocks:
  "2 \<le> criticalFails p \<Longrightarrow>
     generateMentorship w p =
       (\<lparr>improvements = [],
         actionPlan = [''Fix the verification issues above before requesting AI mentorship.''],
         techSuggestions = [],
         overallAdvice = ''Project needs more data before meaningful mentorship can be provided. Ensure AI scoring is done and a description is provided.'',
         verification = verifyProject p\<rparr>, [])"
  by (simp add: generateMentorship_def Let_def criticalFails_def)

lemma gate_open:
  "criticalFails p < 2 \<Longrightarrow> \<exists>r rs. generateMentorship w p = (r, BackendRequest # rs)"
  by (simp add: generateMentorship_def Let_def criticalFails_def
      split: option.splits sum.splits)

text \<open>
  C9. The gate: when two or more of the six checks (Description, GitHub Repo, AI
  Scoring, Plagiarism, Team, Domain) fail, \<open>verifyProject\<close> does not pass, and
  \<open>generateMentorship\<close> returns the minimal answer (no improvements, no technology
  suggestions, the one action "fix the verification issues") without a request to the
  backend proxy or to the language model. A description of at most 14 characters
  together with absent AI scores is such a project.
\<close>

theorem verification_gate:
  "(2 \<le> criticalFails p \<longrightarrow>
      \<not> passed (verifyProject p)
      \<and> snd (generateMentorship w p) = []
      \<and> improvements (fst (generateMentorship w p)) = []
      \<and> techSuggestions (fst (generateMentorship w p)) = []
      \<and> actionPlan (fst (generateMentorship w p)) =
          [''Fix the verification issues above before requesting AI mentorship.'']
      \<and> verification (fst (generateMentorship w p)) = verifyProject p)
   \<and> (length (trim (description p)) \<le> 14 \<and> aiScores p = None \<longrightarrow> 2 \<le> criticalFails p)
   \<and> map name (checks (verifyProject p)) =
       [''Description'', ''GitHub Repo'', ''AI Scoring'', ''Plagiarism'', ''Team'', ''Domain'']"
proof (intro conjI impI)
  assume "2 \<le> criticalFails p"
  then show "\<not> passed (verifyProject p)"
    by (simp add: passed_criticalFails)
next
  assume "length (trim (description p)) \<le> 14 \<and> aiScores p = None"
  then show "2 \<le> criticalFails p"
    by (simp add: short_and_unscored)
qed (simp_all add: gate_blocks six_checks)

theorem verification_gate_witness:
  "length (trim (description blankProject)) \<le> 14 \<and> aiScores blankProject = None
   \<and> 2 \<le> criticalFails blankProject
   \<and> \<not> passed (verifyProject blankProject)
   \<and> snd (generateMentorship exampleWorld blankProject) = []
   \<and> improvements (fst (generateMentorship exampleWorld blankProject)) = []
   \<and> techSuggestions (fst (generateMentorship exampleWorld blankProject)) = []"
proof -
  have h: "length (trim (description blankProject)) \<le> 14 \<and> aiScores blankProject = None"
    by (simp add: blankProject_def trim_def)
  note g = verification_gate [of blankProject exampleWorld]
  from g h have f: "2 \<le> criticalFails blankProject" by blast
  with g h show ?thesis by blast
qed

text \<open>
  C10. \<open>passed\<close> is true exactly when none of the six checks fails. With exactly one
  failing check \<open>passed\<close> is already false, and yet \<open>generateMentorship\<close> goes past its
  gate and asks the backend proxy: the gate closes only at two or more failing checks.
\<close>

theorem passed_iff_no_check_fails:
  "passed (verifyProject p) = (criticalFails p = 0)
   \<and> (criticalFails p = 1 \<longrightarrow>
        \<not> passed (verifyProject p)
        \<and> (\<exists>r rs. generateMentorship w p = (r, BackendRequest # rs)))
   \<and> (snd (generateMentorship w p) = []) = (2 \<le> criticalFails p)"
proof (intro conjI impI)
  show "passed (verifyProject p) = (criticalFails p = 0)"
    by (rule passed_criticalFails)
next
  assume "criticalFails p = 1"
  then show "\<not> passed (verifyProject p)"
    by (simp add: passed_criticalFails)
next
  assume "criticalFails p = 1"
  then have "criticalFails p < 2" by simp
  then show "\<exists>r rs. generateMentorship w p = (r, BackendRequest # rs)"
    by (rule gate_open)
next
  show "(snd (generateMentorship w p) = []) = (2 \<le> criticalFails p)"
  proof (cases "2 \<le> criticalFails p")
    case True
    then show ?thesis by (simp add: gate_blocks)
  next
    case False
    then have "criticalFails p < 2" by simp
    from gate_open [OF this, of w] False show ?thesis by auto
  qed
qed

theorem passed_iff_no_check_fails_witness:
  "criticalFails unscoredProject = 1
   \<and> \<not> passed (verifyProject unscoredProject)
   \<and> snd (generateMentorship exampleWorld unscoredProject) \<noteq> []"
proof -
  have h: "criticalFails unscoredProject = 1"
    by code_simp
  note g = passed_iff_no_check_fails [of unscoredProject exampleWorld]
  from g h show ?thesis by simp
qed

subsection \<open>Scoring engine\<close>

lemma scores_lookup:
  "scores (scoreProjectWithAI rnd p) k = Some (clamp (of_int (clampArgument rnd p k)))"
  by (cases k) (simp_all add: scoreProjectWithAI_def Let_def del: clampArgument.simps)

lemma scoreOr0_lookup:
  "scoreOr0 (scores (scoreProjectWithAI rnd p)) k = clamp (of_int (clampArgument rnd p k))"
  by (simp add: scoreOr0_def scores_lookup)

lemma CRITERIA_fold:
  "foldl (\<lambda>sum c. sum + of_int (scoreOr0 sc (key c)) * weight c) 0 CRITERIA =
     of_int (scoreOr0 sc innovation) * (25 / 100)
     + of_int (scoreOr0 sc technical_feasibility) * (20 / 100)
     + of_int (scoreOr0 sc impact) * (20 / 100)
     + of_int (scoreOr0 sc mvp_completeness) * (10 / 100)
     + of_int (scoreOr0 sc presentation) * (10 / 100)
     + of_int (scoreOr0 sc code_quality) * (5 / 100)
     + of_int (scoreOr0 sc team_collaboration) * (5 / 100)
     + of_int (scoreOr0 sc originality) * (5 / 100)"
  by (simp add: CRITERIA_def)

lemma weightedTotal_unfold:
  "weightedTotal (scoreProjectWithAI rnd p) =
     of_int (Math_round
       (foldl (\<lambda>sum c. sum + of_int (scoreOr0 (scores (scoreProjectWithAI rnd p)) (key c)) * weight c)
          0 CRITERIA * 100)) / 100"
  by (simp add: scoreProjectWithAI_def Let_def del: clampArgument.simps)

lemma CRITERIA_table:
  "map (\<lambda>c. (key c, weight c)) CRITERIA =
     [(innovation, 25 / 100), (technical_feasibility, 20 / 100), (impact, 20 / 100),
      (mvp_completeness, 10 / 100), (presentation, 10 / 100), (code_quality, 5 / 100),
      (team_collaboration, 5 / 100), (originality, 5 / 100)]"
  by (simp add: CRITERIA_def)

lemma CRITERIA_weights: "sum_list (map weight CRITERIA) = 1"
  by (simp add: CRITERIA_def)

text \<open>
  C6. The weighted total is the dot product of the eight criterion scores with the
  weights of \<open>CRITERIA\<close> (innovation 0.25, technical feasibility 0.20, impact 0.20, MVP
  completeness 0.10, presentation 0.10, code quality 0.05, team collaboration 0.05,
  originality 0.05), rounded to two decimals; all eight scores are present and the
  weights add up to 1.
\<close>

theorem weighted_total:
  "weightedTotal (scoreProjectWithAI rnd p) =
     of_int (Math_round
       ((of_int (scoreOr0 (scores (scoreProjectWithAI rnd p)) innovation) * (25 / 100)
         + of_int (scoreOr0 (scores (scoreProjectWithAI rnd p)) technical_feasibility) * (20 / 100)
         + of_int (scoreOr0 (scores (scoreProjectWithAI rnd p)) impact) * (20 / 100)
         + of_int (scoreOr0 (scores (scoreProjectWithAI rnd p)) mvp_completeness) * (10 / 100)
         + of_int (scoreOr0 (scores (scoreProjectWithAI rnd p)) presentation) * (10 / 100)
         + of_int (scoreOr0 (scores (scoreProjectWithAI rnd p)) code_quality) * (5 / 100)
         + of_int (scoreOr0 (scores (scoreProjectWithAI rnd p)) team_collaboration) * (5 / 100)
         + of_int (scoreOr0 (scores (scoreProjectWithAI rnd p)) originality) * (5 / 100))
        * 100)) / 100
   \<and> (\<forall>k. \<exists>v. scores (scoreProjectWithAI rnd p) k = Some v)
   \<and> map (\<lambda>c. (key c, weight c)) CRITERIA =
       [(innovation, 25 / 100), (technical_feasibility, 20 / 100), (impact, 20 / 100),
        (mvp_completeness, 10 / 100), (presentation, 10 / 100), (code_quality, 5 / 100),
        (team_collaboration, 5 / 100), (originality, 5 / 100)]
   \<and> sum_list (map weight CRITERIA) = 1"
  by (simp only: weightedTotal_unfold CRITERIA_fold CRITERIA_table CRITERIA_weights
        scores_lookup simp_thms option.inject ex_simps)

theorem weighted_total_witness:
  "weightedTotal (scoreProjectWithAI noJitter blankProject) = 255 / 100"
proof -
  let ?s = "scores (scoreProjectWithAI noJitter blankProject)"
  have v: "scoreOr0 ?s innovation = 2" "scoreOr0 ?s technical_feasibility = 2"
    "scoreOr0 ?s impact = 3" "scoreOr0 ?s mvp_completeness = 1"
    "scoreOr0 ?s presentation = 3" "scoreOr0 ?s code_quality = 2"
    "scoreOr0 ?s team_collaboration = 4" "scoreOr0 ?s originality = 7"
    by code_simp+
  have n: "of_int (Math_round
       ((of_int 2 * (25 / 100) + of_int 2 * (20 / 100) + of_int 3 * (20 / 100)
         + of_int 1 * (10 / 100) + of_int 3 * (10 / 100) + of_int 2 * (5 / 100)
         + of_int 4 * (5 / 100) + of_int 7 * (5 / 100)) * 100)) / 100 = (255 / 100 :: rat)"
    by code_simp
  from weighted_total [of noJitter blankProject]
  have "weightedTotal (scoreProjectWithAI noJitter blankProject) =
     of_int (Math_round
       ((of_int (scoreOr0 ?s innovation) * (25 / 100)
         + of_int (scoreOr0 ?s technical_feasibility) * (20 / 100)
         + of_int (scoreOr0 ?s impact) * (20 / 100)
         + of_int (scoreOr0 ?s mvp_completeness) * (10 / 100)
         + of_int (scoreOr0 ?s presentation) * (10 / 100)
         + of_int (scoreOr0 ?s code_quality) * (5 / 100)
         + of_int (scoreOr0 ?s team_collaboration) * (5 / 100)
         + of_int (scoreOr0 ?s originality) * (5 / 100))
        * 100)) / 100"
    by (rule conjunct1)
  then show ?thesis
    by (simp only: v n)
qed

lemma weighted_sum_range:
  fixes a b c d e f g h :: int
  assumes "1 \<le> a \<and> a \<le> 10" "1 \<le> b \<and> b \<le> 10" "1 \<le> c \<and> c \<le> 10" "1 \<le> d \<and> d \<le> 10"
    "1 \<le> e \<and> e \<le> 10" "1 \<le> f \<and> f \<le> 10" "1 \<le> g \<and> g \<le> 10" "1 \<le> h \<and> h \<le> 10"
  shows "(1::rat) \<le> of_int a * (25 / 100) + of_int b * (20 / 100) + of_int c * (20 / 100)
           + of_int d * (10 / 100) + of_int e * (10 / 100) + of_int f * (5 / 100)
           + of_int g * (5 / 100) + of_int h * (5 / 100)"
    and "of_int a * (25 / 100) + of_int b * (20 / 100) + of_int c * (20 / 100)
           + of_int d * (10 / 100) + of_int e * (10 / 100) + of_int f * (5 / 100)
           + of_int g * (5 / 100) + of_int h * (5 / 100) \<le> (10::rat)"
proof -
  have r: "(1::rat) \<le> of_int x \<and> (of_int x :: rat) \<le> 10" if "1 \<le> x \<and> x \<le> 10" for x :: int
    using that by (metis of_int_1_le_iff of_int_le_numeral_iff)
  note r [OF assms(1)] r [OF assms(2)] r [OF assms(3)] r [OF assms(4)]
       r [OF assms(5)] r [OF assms(6)] r [OF assms(7)] r [OF assms(8)]
  then show "(1::rat) \<le> of_int a * (25 / 100) + of_int b * (20 / 100) + of_int c * (20 / 100)
           + of_int d * (10 / 100) + of_int e * (10 / 100) + of_int f * (5 / 100)
           + of_int g * (5 / 100) + of_int h * (5 / 100)"
    and "of_int a * (25 / 100) + of_int b * (20 / 100) + of_int c * (20 / 100)
           + of_int d * (10 / 100) + of_int e * (10 / 100) + of_int f * (5 / 100)
           + of_int g * (5 / 100) + of_int h * (5 / 100) \<le> (10::rat)"
    by linarith+
qed

lemma round2_range:
  fixes x :: rat
  assumes "1 \<le> x" "x \<le> 10"
  shows "1 \<le> (of_int (Math_round (x * 100)) / 100 :: rat)"
    and "(of_int (Math_round (x * 100)) / 100 :: rat) \<le> 10"
proof -
  have "100 \<le> Math_round (x * 100)"
    unfolding Math_round_def using assms(1) by (simp add: le_floor_iff)
  then have "(100::rat) \<le> of_int (Math_round (x * 100))"
    by (metis of_int_le_iff of_int_numeral)
  then show "1 \<le> (of_int (Math_round (x * 100)) / 100 :: rat)" by simp
  have "Math_round (x * 100) \<le> 1000"
    unfolding Math_round_def using assms(2) by (simp add: floor_le_iff)
  then have "(of_int (Math_round (x * 100)) :: rat) \<le> 1000"
    by (metis of_int_le_iff of_int_numeral)
  then show "(of_int (Math_round (x * 100)) / 100 :: rat) \<le> 10" by simp
qed

lemma weightedTotal_range:
  "1 \<le> weightedTotal (scoreProjectWithAI rnd p) \<and> weightedTotal (scoreProjectWithAI rnd p) \<le> 10"
proof -
  have e: "weightedTotal (scoreProjectWithAI rnd p) =
     of_int (Math_round
       ((of_int (clamp (of_int (clampArgument rnd p innovation))) * (25 / 100)
         + of_int (clamp (of_int (clampArgument rnd p technical_feasibility))) * (20 / 100)
         + of_int (clamp (of_int (clampArgument rnd p impact))) * (20 / 100)
         + of_int (clamp (of_int (clampArgument rnd p mvp_completeness))) * (10 / 100)
         + of_int (clamp (of_int (clampArgument rnd p presentation))) * (10 / 100)
         + of_int (clamp (of_int (clampArgument rnd p code_quality))) * (5 / 100)
         + of_int (clamp (of_int (clampArgument rnd p team_collaboration))) * (5 / 100)
         + of_int (clamp (of_int (clampArgument rnd p originality))) * (5 / 100))
        * 100)) / 100"
    by (simp only: weightedTotal_unfold CRITERIA_fold) (simp only: scoreOr0_lookup)
  note s = weighted_sum_range [OF clamp_range clamp_range clamp_range clamp_range
      clamp_range clamp_range clamp_range clamp_range]
  from round2_range [OF s] show ?thesis
    by (simp only: e simp_thms)
qed

subsection \<open>Repository analyzer\<close>

lemma set_uniq: "set (uniq seen xs) = set xs - set seen"
  by (induction xs arbitrary: seen) auto

lemma distinct_uniq: "distinct (uniq seen xs)"
  by (induction xs arbitrary: seen) (auto simp: set_uniq)

lemma length_uniq: "length (uniq [] xs) = card (set xs)"
  using distinct_card [OF distinct_uniq, of "[]" xs] by (simp add: set_uniq)

lemma Math_round_range:
  fixes x :: rat
  assumes "of_int lo \<le> x" "x \<le> of_int hi"
  shows "lo \<le> Math_round x \<and> Math_round x \<le> hi"
proof -
  have "of_int lo \<le> x + 1 / 2" using assms(1) by simp
  moreover have "x + 1 / 2 < of_int hi + 1" using assms(2) by simp
  ultimately show ?thesis
    unfolding Math_round_def by (simp only: le_floor_iff floor_le_iff simp_thms)
qed

lemma topAuthorPercent_range:
  assumes "commits \<noteq> []"
  shows "0 \<le> topAuthorPercent commits \<and> topAuthorPercent commits \<le> 100"
proof -
  let ?authors = "map commitAuthor commits"
  let ?counts = "set (map (\<lambda>a. count_list ?authors a) (uniq [] ?authors))"
  let ?top = "Max ?counts"
  have ne: "?counts \<noteq> {}" using assms by (simp add: set_uniq)
  have "\<forall>c\<in>?counts. c \<le> length commits"
    using count_le_length [of ?authors] by auto
  then have "?top \<le> length commits" using ne by simp
  then have "(of_nat ?top :: rat) \<le> of_nat (length commits)" by (simp only: of_nat_le_iff)
  moreover have "(0::rat) < of_nat (length commits)" using assms by simp
  ultimately have "(of_nat ?top :: rat) / of_nat (length commits) \<le> 1"
    by (simp add: divide_le_eq)
  then have "(of_nat ?top :: rat) / of_nat (length commits) * 100 \<le> 1 * 100"
    by (rule mult_right_mono) simp
  then have hi: "(of_nat ?top :: rat) / of_nat (length commits) * 100 \<le> of_int 100"
    by (simp only: mult_1 of_int_numeral)
  have lo: "(of_int 0 :: rat) \<le> of_nat ?top / of_nat (length commits) * 100" by simp
  from Math_round_range [OF lo hi] show ?thesis
    by (simp only: topAuthorPercent_def Let_def)
qed

lemma burstRules_range:
  "15 \<le> burstRules n d s a \<and> burstRules n d s a \<le> 90"
  by (simp add: burstRules_def)

lemma burstOf_range: "15 \<le> burstOf commits \<and> burstOf commits \<le> 100"
proof -
  have "15 \<le> (if c then min (b + 20) 100 else b) \<and> (if c then min (b + 20) 100 else b) \<le> 100"
    if "15 \<le> b \<and> b \<le> 90" for b :: int and c
    using that by simp
  from this [OF burstRules_range] show ?thesis
    by (simp only: burstOf_def Let_def)
qed

lemma analyzeCommits_ranges:
  "0 \<le> ca_burstCommitScore (analyzeCommits commits)
   \<and> ca_burstCommitScore (analyzeCommits commits) \<le> 100
   \<and> 0 \<le> ca_singleAuthorPercent (analyzeCommits commits)
   \<and> ca_singleAuthorPercent (analyzeCommits commits) \<le> 100"
proof (cases "commits = []")
  case True
  then show ?thesis by (simp add: analyzeCommits_def)
next
  case False
  with burstOf_range [of commits] topAuthorPercent_range [of commits]
  show ?thesis by (simp add: analyzeCommits_def)
qed

lemma fetchedAnalysis_fields:
  "fetched (fetchedAnalysis info cs langs tree)"
  "burstCommitScore (fetchedAnalysis info cs langs tree) = ca_burstCommitScore (analyzeCommits cs)"
  "singleAuthorPercent (fetchedAnalysis info cs langs tree) =
     ca_singleAuthorPercent (analyzeCommits cs)"
  "modularityScore (fetchedAnalysis info cs langs tree) = ta_modularityScore (analyzeTree tree)"
  "totalCommits (fetchedAnalysis info cs langs tree) = ca_totalCommits (analyzeCommits cs)"
  "isForked (fetchedAnalysis info cs langs tree) = fork info"
  "isMirror (fetchedAnalysis info cs langs tree) = truthy (mirror_url info)"
  "commitGenuineness (fetchedAnalysis info cs langs tree) =
     clamp (10 - of_int (ca_burstCommitScore (analyzeCommits cs)) / 10)"
  by (simp_all add: fetchedAnalysis_def Let_def)

lemma analyzeTree_modularity:
  "ta_modularityScore (analyzeTree tree) =
     clamp (modularityRaw (ta_totalFiles (analyzeTree tree)) (ta_totalDirs (analyzeTree tree))
              (ta_structureDepth (analyzeTree tree)) (ta_hasDockerfile (analyzeTree tree))
              (ta_hasCIConfig (analyzeTree tree)) (ta_hasTests (analyzeTree tree))
              (ta_hasEnvExample (analyzeTree tree)))"
  by (simp add: analyzeTree_def Let_def)

lemma fetchedAnalysis_clamped:
  "\<exists>v. cleanlinessScore (fetchedAnalysis info cs langs tree) = clamp v"
  "\<exists>v. overallRepoScore (fetchedAnalysis info cs langs tree) = clamp v"
  by (simp_all add: fetchedAnalysis_def Let_def exI)

lemma analyzeGitHubRepo_invalid:
  "parseGitHubUrl url = None \<Longrightarrow>
     analyzeGitHubRepo api url = createEmptyAnalysis ''Invalid or missing GitHub URL''"
  by (simp add: analyzeGitHubRepo_def)

lemma analyzeGitHubRepo_failed:
  "parseGitHubUrl url = Some (owner, repo) \<Longrightarrow> getRepo api (apiBaseUrl owner repo) = Inl msg \<Longrightarrow>
     analyzeGitHubRepo api url = createEmptyAnalysis (fetchError msg)"
  by (simp add: analyzeGitHubRepo_def tryAnalyze_def)

lemma analyzeGitHubRepo_fetched:
  "parseGitHubUrl url = Some (owner, repo) \<Longrightarrow> getRepo api (apiBaseUrl owner repo) = Inr info \<Longrightarrow>
     analyzeGitHubRepo api url =
       fetchedAnalysis info
         (orDefault (getCommits api (apiBaseUrl owner repo @ ''/commits?per_page=100'')) [])
         (orDefault (getLanguages api (apiBaseUrl owner repo @ ''/languages'')) [])
         (orDefault (getTree api (apiBaseUrl owner repo) (defaultBranchOf info)) [])"
  by (simp add: analyzeGitHubRepo_def tryAnalyze_def Let_def)

lemma analyzeGitHubRepo_cases:
  "(\<exists>e. analyzeGitHubRepo api url = createEmptyAnalysis e)
   \<or> (\<exists>info cs langs tree. analyzeGitHubRepo api url = fetchedAnalysis info cs langs tree)"
proof (cases "parseGitHubUrl url")
  case None
  from analyzeGitHubRepo_invalid [OF this] show ?thesis by blast
next
  case (Some m)
  obtain owner repo where m: "m = (owner, repo)" by (cases m)
  show ?thesis
  proof (cases "getRepo api (apiBaseUrl owner repo)")
    case (Inl msg)
    from analyzeGitHubRepo_failed [OF Some [unfolded m] this] show ?thesis by blast
  next
    case (Inr info)
    from analyzeGitHubRepo_fetched [OF Some [unfolded m] this] show ?thesis by blast
  qed
qed

lemma createEmptyAnalysis_fields:
  "\<not> fetched (createEmptyAnalysis e)"
  "error (createEmptyAnalysis e) = Some e"
  "modularityScore (createEmptyAnalysis e) = 3"
  "cleanlinessScore (createEmptyAnalysis e) = 3"
  "commitGenuineness (createEmptyAnalysis e) = 3"
  "overallRepoScore (createEmptyAnalysis e) = 3"
  "burstCommitScore (createEmptyAnalysis e) = 50"
  "singleAuthorPercent (createEmptyAnalysis e) = 100"
  by (simp_all add: createEmptyAnalysis_def)

lemma inRanges_empty: "inRanges (createEmptyAnalysis e)"
  by (simp add: inRanges_def createEmptyAnalysis_fields)

lemma inRanges_fetched: "inRanges (fetchedAnalysis info cs langs tree)"
proof -
  obtain c where c: "cleanlinessScore (fetchedAnalysis info cs langs tree) = clamp c"
    using fetchedAnalysis_clamped(1) by blast
  obtain r where r: "overallRepoScore (fetchedAnalysis info cs langs tree) = clamp r"
    using fetchedAnalysis_clamped(2) by blast
  show ?thesis
    unfolding inRanges_def c r fetchedAnalysis_fields analyzeTree_modularity
    using clamp_range analyzeCommits_ranges [of cs] by (simp only: simp_thms)
qed

lemma inRanges_analyzeGitHubRepo: "inRanges (analyzeGitHubRepo api url)"
  using analyzeGitHubRepo_cases [of api url] inRanges_empty inRanges_fetched by metis

lemma Math_round_zero: "Math_round 0 = 0"
  unfolding Math_round_def by (rule floor_unique) simp_all

lemma no_commits_fields:
  "burstCommitScore (fetchedAnalysis info [] langs tree) = 100"
  "commitGenuineness (fetchedAnalysis info [] langs tree) = 1"
  by (simp_all add: fetchedAnalysis_fields analyzeCommits_def clamp_def Math_round_zero)

lemma rateLimitedAnalysis_value:
  "rateLimitedAnalysis =
     \<lparr>fetched = True, error = None, isForked = False, isMirror = False,
      hasReadme = False, hasLicense = False, languages = [],
      totalCommits = 0, commitAuthors = [], avgTimeBetweenCommits = 0,
      burstCommitScore = 100, singleAuthorPercent = 100, totalFiles = 0,
      totalDirs = 0, hasPackageJson = False, hasRequirements = False,
      hasDockerfile = False, hasCIConfig = False, hasTests = False,
      hasEnvExample = False, structureDepth = 1, modularityScore = 1,
      cleanlinessScore = 2, commitGenuineness = 1, overallRepoScore = 1\<rparr>"
  by code_simp

text \<open>
  C7, as amended. The analyzer is total: for every URL and whatever the hosting API
  answers, the result is a record, either a fetched one or the empty record of
  \<open>createEmptyAnalysis\<close>, with every score inside its documented range. A URL that does
  not parse gives the empty record at once, with the error "Invalid or missing GitHub
  URL". A failed request for the repository itself gives the empty record with the error
  for not found (404), for the rate limit (403) or for any other failure; in the empty
  record \<open>fetched\<close> is false and the scores are the fixed defaults 3, 3, 3, 3, burst 50 and
  single-author share 100. A failed request for the commits, the languages or the tree
  is replaced by an empty collection: the record stays fetched and its scores are
  computed from the empty collection, so that with no commits the burst score is 100 and
  the commit genuineness 1.
\<close>

theorem analyzer_degradation_amended:
  "(parseGitHubUrl url = None \<longrightarrow>
      analyzeGitHubRepo api url = createEmptyAnalysis ''Invalid or missing GitHub URL'')
   \<and> (\<forall>owner repo msg.
         parseGitHubUrl url = Some (owner, repo) \<and> getRepo api (apiBaseUrl owner repo) = Inl msg
         \<longrightarrow> analyzeGitHubRepo api url = createEmptyAnalysis (fetchError msg))
   \<and> (\<forall>owner repo info.
         parseGitHubUrl url = Some (owner, repo) \<and> getRepo api (apiBaseUrl owner repo) = Inr info
         \<longrightarrow> fetched (analyzeGitHubRepo api url)
             \<and> analyzeGitHubRepo api url =
                 fetchedAnalysis info
                   (orDefault (getCommits api (apiBaseUrl owner repo @ ''/commits?per_page=100'')) [])
                   (orDefault (getLanguages api (apiBaseUrl owner repo @ ''/languages'')) [])
                   (orDefault (getTree api (apiBaseUrl owner repo) (defaultBranchOf info)) []))
   \<and> orDefault (Inl msg) ([] :: GitHubCommitRaw list) = []
   \<and> orDefault (Inl msg) ([] :: (string \<times> nat) list) = []
   \<and> orDefault (Inl msg) ([] :: TreeItemRaw list) = []
   \<and> burstCommitScore (fetchedAnalysis info [] langs tree) = 100
   \<and> commitGenuineness (fetchedAnalysis info [] langs tree) = 1
   \<and> (fetched (analyzeGitHubRepo api url)
        \<or> (\<exists>e. analyzeGitHubRepo api url = createEmptyAnalysis e))
   \<and> inRanges (analyzeGitHubRepo api url)
   \<and> (str_includes msg ''404'' \<longrightarrow>
        fetchError msg = ''Repository not found (404) '' @ emDash @ '' private or doesn't exist'')
   \<and> (\<not> str_includes msg ''404'' \<and> str_includes msg ''403'' \<longrightarrow>
        fetchError msg = ''GitHub API rate limit reached '' @ emDash @ '' try again later'')
   \<and> (\<not> str_includes msg ''404'' \<and> \<not> str_includes msg ''403'' \<longrightarrow>
        fetchError msg = ''Failed to fetch: '' @ msg)
   \<and> \<not> fetched (createEmptyAnalysis e) \<and> error (createEmptyAnalysis e) = Some e
   \<and> modularityScore (createEmptyAnalysis e) = 3 \<and> cleanlinessScore (createEmptyAnalysis e) = 3
   \<and> commitGenuineness (createEmptyAnalysis e) = 3 \<and> overallRepoScore (createEmptyAnalysis e) = 3
   \<and> burstCommitScore (createEmptyAnalysis e) = 50
   \<and> singleAuthorPercent (createEmptyAnalysis e) = 100"
proof -
  have c: "fetched (analyzeGitHubRepo api url)
        \<or> (\<exists>e. analyzeGitHubRepo api url = createEmptyAnalysis e)"
    using analyzeGitHubRepo_cases [of api url] fetchedAnalysis_fields(1) by metis
  have f: "fetched (analyzeGitHubRepo api url)
             \<and> analyzeGitHubRepo api url =
                 fetchedAnalysis info
                   (orDefault (getCommits api (apiBaseUrl owner repo @ ''/commits?per_page=100'')) [])
                   (orDefault (getLanguages api (apiBaseUrl owner repo @ ''/languages'')) [])
                   (orDefault (getTree api (apiBaseUrl owner repo) (defaultBranchOf info)) [])"
    if "parseGitHubUrl url = Some (owner, repo) \<and> getRepo api (apiBaseUrl owner repo) = Inr info"
    for owner repo info
    using analyzeGitHubRepo_fetched [of url owner repo api info] that fetchedAnalysis_fields(1)
    by simp
  have p: "parseGitHubUrl url = None \<longrightarrow>
      analyzeGitHubRepo api url = createEmptyAnalysis ''Invalid or missing GitHub URL''"
    by (simp add: analyzeGitHubRepo_invalid)
  have q: "\<forall>owner repo msg.
         parseGitHubUrl url = Some (owner, repo) \<and> getRepo api (apiBaseUrl owner repo) = Inl msg
         \<longrightarrow> analyzeGitHubRepo api url = createEmptyAnalysis (fetchError msg)"
    by (simp add: analyzeGitHubRepo_failed)
  have r: "\<forall>owner repo info.
         parseGitHubUrl url = Some (owner, repo) \<and> getRepo api (apiBaseUrl owner repo) = Inr info
         \<longrightarrow> fetched (analyzeGitHubRepo api url)
             \<and> analyzeGitHubRepo api url =
                 fetchedAnalysis info
                   (orDefault (getCommits api (apiBaseUrl owner repo @ ''/commits?per_page=100'')) [])
                   (orDefault (getLanguages api (apiBaseUrl owner repo @ ''/languages'')) [])
                   (orDefault (getTree api (apiBaseUrl owner repo) (defaultBranchOf info)) [])"
    using f by blast
  have d: "orDefault (Inl msg) ([] :: GitHubCommitRaw list) = []"
    "orDefault (Inl msg) ([] :: (string \<times> nat) list) = []"
    "orDefault (Inl msg) ([] :: TreeItemRaw list) = []"
    by (simp_all add: orDefault_def)
  have m: "str_includes msg ''404'' \<longrightarrow>
        fetchError msg = ''Repository not found (404) '' @ emDash @ '' private or doesn't exist''"
    "\<not> str_includes msg ''404'' \<and> str_includes msg ''403'' \<longrightarrow>
        fetchError msg = ''GitHub API rate limit reached '' @ emDash @ '' try again later''"
    "\<not> str_includes msg ''404'' \<and> \<not> str_includes msg ''403'' \<longrightarrow>
        fetchError msg = ''Failed to fetch: '' @ msg"
    by (simp_all add: fetchError_def)
  show ?thesis
    by (intro conjI)
      (rule p q r d m c no_commits_fields inRanges_analyzeGitHubRepo createEmptyAnalysis_fields)+
qed

theorem analyzer_degradation_amended_witness:
  "parseGitHubUrl ''not a repository link'' = None
   \<and> analyzeGitHubRepo flatRepoApi ''not a repository link'' =
       createEmptyAnalysis ''Invalid or missing GitHub URL''
   \<and> parseGitHubUrl ''https://github.com/team/gone'' = Some (''team'', ''gone'')
   \<and> getRepo notFoundApi (apiBaseUrl ''team'' ''gone'') = Inl ''GitHub API 404: Not Found''
   \<and> analyzeGitHubRepo notFoundApi ''https://github.com/team/gone'' =
       createEmptyAnalysis (''Repository not found (404) '' @ emDash @ '' private or doesn't exist'')
   \<and> parseGitHubUrl ''https://github.com/team/flat'' = Some (''team'', ''flat'')
   \<and> getRepo rateLimitedApi (apiBaseUrl ''team'' ''flat'') = Inr plainRepo
   \<and> fetched (analyzeGitHubRepo rateLimitedApi ''https://github.com/team/flat'')
   \<and> analyzeGitHubRepo rateLimitedApi ''https://github.com/team/flat'' =
       fetchedAnalysis plainRepo [] [] []"
proof -
  have a: "parseGitHubUrl ''not a repository link'' = None"
    by code_simp
  have b: "parseGitHubUrl ''https://github.com/team/gone'' = Some (''team'', ''gone'')"
    by code_simp
  have c: "getRepo notFoundApi (apiBaseUrl ''team'' ''gone'') = Inl ''GitHub API 404: Not Found''"
    by (simp add: notFoundApi_def)
  have d: "str_includes ''GitHub API 404: Not Found'' ''404''"
    by code_simp
  have u: "parseGitHubUrl ''https://github.com/team/flat'' = Some (''team'', ''flat'')"
    by code_simp
  have r: "getRepo rateLimitedApi (apiBaseUrl ''team'' ''flat'') = Inr plainRepo"
    by (simp add: rateLimitedApi_def)
  note g = analyzer_degradation_amended [where url = "''not a repository link''"
      and api = flatRepoApi]
  note h = analyzer_degradation_amended [where url = "''https://github.com/team/gone''"
      and api = notFoundApi and msg = "''GitHub API 404: Not Found''"]
  note k = analyzer_degradation_amended [where url = "''https://github.com/team/flat''"
      and api = rateLimitedApi]
  from g a have 1: "analyzeGitHubRepo flatRepoApi ''not a repository link'' =
       createEmptyAnalysis ''Invalid or missing GitHub URL''" by blast
  from h b c have 2: "analyzeGitHubRepo notFoundApi ''https://github.com/team/gone'' =
       createEmptyAnalysis (fetchError ''GitHub API 404: Not Found'')" by blast
  from h d have 3: "fetchError ''GitHub API 404: Not Found'' =
       ''Repository not found (404) '' @ emDash @ '' private or doesn't exist''" by blast
  from k u r have 4: "fetched (analyzeGitHubRepo rateLimitedApi ''https://github.com/team/flat'')
      \<and> analyzeGitHubRepo rateLimitedApi ''https://github.com/team/flat'' =
          fetchedAnalysis plainRepo
            (orDefault (getCommits rateLimitedApi
               (apiBaseUrl ''team'' ''flat'' @ ''/commits?per_page=100'')) [])
            (orDefault (getLanguages rateLimitedApi (apiBaseUrl ''team'' ''flat'' @ ''/languages'')) [])
            (orDefault (getTree rateLimitedApi (apiBaseUrl ''team'' ''flat'')
               (defaultBranchOf plainRepo)) [])"
    by blast
  have o: "orDefault (getCommits rateLimitedApi
               (apiBaseUrl ''team'' ''flat'' @ ''/commits?per_page=100'')) [] = []"
    "orDefault (getLanguages rateLimitedApi (apiBaseUrl ''team'' ''flat'' @ ''/languages'')) [] = []"
    "orDefault (getTree rateLimitedApi (apiBaseUrl ''team'' ''flat'')
               (defaultBranchOf plainRepo)) [] = []"
    by (simp_all add: rateLimitedApi_def orDefault_def)
  note 5 = 4 [unfolded o]
  note 6 = 2 [unfolded 3]
  show ?thesis
    by (intro conjI) (rule a b c u r 1 6 5 [THEN conjunct1] 5 [THEN conjunct2])+
qed

text \<open>
  C7 as stated fails: when the repository request is answered and the requests for the
  commits, the languages and the tree are refused with status 403, the record is
  fetched, not the empty one, with burst score 100, commit genuineness 1, modularity 1,
  cleanliness 2 and overall score 1 instead of the defaults.
\<close>

theorem analyzer_degradation_counterexample:
  "getRepo rateLimitedApi (apiBaseUrl ''team'' ''flat'') = Inr plainRepo
   \<and> getCommits rateLimitedApi (apiBaseUrl ''team'' ''flat'' @ ''/commits?per_page=100'') =
       Inl ''GitHub API 403: rate limit exceeded''
   \<and> getLanguages rateLimitedApi (apiBaseUrl ''team'' ''flat'' @ ''/languages'') =
       Inl ''GitHub API 403: rate limit exceeded''
   \<and> getTree rateLimitedApi (apiBaseUrl ''team'' ''flat'') ''main'' =
       Inl ''GitHub API 403: rate limit exceeded''
   \<and> rateLimitedAnalysis = analyzeGitHubRepo rateLimitedApi ''https://github.com/team/flat''
   \<and> fetched rateLimitedAnalysis
   \<and> burstCommitScore rateLimitedAnalysis = 100
   \<and> commitGenuineness rateLimitedAnalysis = 1
   \<and> modularityScore rateLimitedAnalysis = 1
   \<and> cleanlinessScore rateLimitedAnalysis = 2
   \<and> overallRepoScore rateLimitedAnalysis = 1"
proof -
  have d: "rateLimitedAnalysis = analyzeGitHubRepo rateLimitedApi ''https://github.com/team/flat''"
    by (simp only: rateLimitedAnalysis_def)
  have q: "getRepo rateLimitedApi (apiBaseUrl ''team'' ''flat'') = Inr plainRepo"
    "getCommits rateLimitedApi (apiBaseUrl ''team'' ''flat'' @ ''/commits?per_page=100'') =
       Inl ''GitHub API 403: rate limit exceeded''"
    "getLanguages rateLimitedApi (apiBaseUrl ''team'' ''flat'' @ ''/languages'') =
       Inl ''GitHub API 403: rate limit exceeded''"
    "getTree rateLimitedApi (apiBaseUrl ''team'' ''flat'') ''main'' =
       Inl ''GitHub API 403: rate limit exceeded''"
    by (simp_all add: rateLimitedApi_def)
  have v: "fetched rateLimitedAnalysis" "burstCommitScore rateLimitedAnalysis = 100"
    "commitGenuineness rateLimitedAnalysis = 1" "modularityScore rateLimitedAnalysis = 1"
    "cleanlinessScore rateLimitedAnalysis = 2" "overallRepoScore rateLimitedAnalysis = 1"
    by (simp_all add: rateLimitedAnalysis_value)
  show ?thesis
    by (intro conjI) (rule d q v)+
qed

subsection \<open>Score ranges\<close>

lemma scores_range:
  "\<exists>v. scores (scoreProjectWithAI rnd p) k = Some v \<and> 1 \<le> v \<and> v \<le> 10"
  by (simp only: scores_lookup option.inject ex_simps simp_thms clamp_range)

text \<open>
  C1. Score ranges. For every project and every jitter, each of the eight criterion
  scores of \<open>scoreProjectWithAI\<close> is an integer from 1 to 10 and the weighted total lies
  between 1 and 10; for every input the overall plagiarism score lies between 5 and
  100; and for every URL and every answer of the hosting API, fetched or not, the
  analysis has modularity, cleanliness, commit genuineness and overall repository score
  from 1 to 10, and burst score and single-author share from 0 to 100.
\<close>

theorem score_range_invariant:
  "(\<forall>k. \<exists>v. scores (scoreProjectWithAI rnd p) k = Some v \<and> 1 \<le> v \<and> v \<le> 10)
   \<and> 1 \<le> weightedTotal (scoreProjectWithAI rnd p)
   \<and> weightedTotal (scoreProjectWithAI rnd p) \<le> 10
   \<and> 5 \<le> overallScore (analyzePlagiarism url desc pname gh)
   \<and> overallScore (analyzePlagiarism url desc pname gh) \<le> 100
   \<and> inRanges (analyzeGitHubRepo api repoUrl)
   \<and> inRanges (createEmptyAnalysis e)
   \<and> inRanges (fetchedAnalysis info cs langs tree)"
  using scores_range [of rnd p] weightedTotal_range [of rnd p]
    overallScore_range [of url desc pname gh] inRanges_analyzeGitHubRepo [of api repoUrl]
    inRanges_empty [of e] inRanges_fetched [of info cs langs tree]
  by (simp only: simp_thms)

theorem score_range_invariant_witness:
  "fetched (analyzeGitHubRepo flatRepoApi ''https://github.com/team/flat'')
   \<and> \<not> fetched (analyzeGitHubRepo notFoundApi ''https://github.com/team/gone'')
   \<and> inRanges (analyzeGitHubRepo flatRepoApi ''https://github.com/team/flat'')
   \<and> inRanges (analyzeGitHubRepo notFoundApi ''https://github.com/team/gone'')
   \<and> 1 \<le> weightedTotal (scoreProjectWithAI noJitter blankProject)
   \<and> weightedTotal (scoreProjectWithAI noJitter blankProject) \<le> 10
   \<and> 5 \<le> overallScore (analyzePlagiarism [] ''a robust tool'' ''tool'' None)
   \<and> overallScore (analyzePlagiarism [] ''a robust tool'' ''tool'' None) \<le> 100"
proof -
  have f: "fetched (analyzeGitHubRepo flatRepoApi ''https://github.com/team/flat'')"
    by code_simp
  have n: "\<not> fetched (analyzeGitHubRepo notFoundApi ''https://github.com/team/gone'')"
    by code_simp
  note a = score_range_invariant [of noJitter blankProject "[]" "''a robust tool''" "''tool''"
      None flatRepoApi "''https://github.com/team/flat''" "[]" plainRepo "[]" "[]" "[]"]
  note b = score_range_invariant [of noJitter blankProject "[]" "''a robust tool''" "''tool''"
      None notFoundApi "''https://github.com/team/gone''" "[]" plainRepo "[]" "[]" "[]"]
  from a b f n show ?thesis by (simp only: simp_thms)
qed

subsection \<open>Plagiarism penalty\<close>

lemma hasGH_plagiarismScore [simp]: "hasGH (p\<lparr>plagiarismScore := s\<rparr>) = hasGH p"
  by (simp add: hasGH_def)

lemma repoAuthors_plagiarismScore [simp]: "repoAuthors (p\<lparr>plagiarismScore := s\<rparr>) = repoAuthors p"
  by (simp add: repoAuthors_def)

lemma rawScore_plagiarismScore:
  "k \<noteq> originality \<or> hasGH p \<Longrightarrow> rawScore rnd (p\<lparr>plagiarismScore := s\<rparr>) k = rawScore rnd p k"
  by (cases k)
    (simp_all add: innovationRaw_def techRaw_def impactRaw_def mvpRaw_def codeRaw_def
      origRaw_def analyzePPT_def membersListed_def Let_def)

lemma clampArgument_raw:
  "k \<noteq> team_collaboration \<or> \<not> repoAuthors p \<Longrightarrow>
     clampArgument rnd p k = rawScore rnd p k + plagiarismPenalty p"
  by (cases k) (auto simp add: repoAuthors_def)

lemma plagiarismPenalty_75_0:
  "plagiarismPenalty (p\<lparr>plagiarismScore := 75\<rparr>) = - 2"
  "plagiarismPenalty (p\<lparr>plagiarismScore := 0\<rparr>) = 0"
  by (simp_all add: plagiarismPenalty_def)

text \<open>
  C5, as amended. The penalty is \<open>-2\<close> when the plagiarism score is above 60, \<open>-1\<close> when
  it is above 30, and 0 otherwise. Each score is the clamp of the value its criterion
  hands over, and that value is the raw score plus the penalty for every criterion but
  team collaboration, and for team collaboration too when there is no fetched analysis
  with a commit author. With a plagiarism score of 75 instead of 0, for the same project
  and the same jitter, the value handed to the clamp is lower by exactly 2 for
  innovation, technical feasibility, impact, MVP completeness, presentation and code
  quality; for originality when a fetched analysis exists (without one, its raw score
  itself is computed from the plagiarism score); and for team collaboration when there
  is no fetched analysis with a commit author.
\<close>

theorem uniform_penalty_amended:
  "plagiarismPenalty p =
     (if plagiarismScore p > 60 then - 2 else if plagiarismScore p > 30 then - 1 else 0)
   \<and> (\<forall>k. scores (scoreProjectWithAI rnd p) k = Some (clamp (of_int (clampArgument rnd p k))))
   \<and> (\<forall>k. k \<noteq> team_collaboration \<or> \<not> repoAuthors p \<longrightarrow>
          clampArgument rnd p k = rawScore rnd p k + plagiarismPenalty p)
   \<and> (\<forall>k. (k \<noteq> originality \<or> hasGH p) \<and> (k \<noteq> team_collaboration \<or> \<not> repoAuthors p) \<longrightarrow>
          clampArgument rnd (p\<lparr>plagiarismScore := 75\<rparr>) k =
            clampArgument rnd (p\<lparr>plagiarismScore := 0\<rparr>) k - 2)"
proof (intro conjI allI impI)
  show "plagiarismPenalty p =
     (if plagiarismScore p > 60 then - 2 else if plagiarismScore p > 30 then - 1 else 0)"
    by (simp add: plagiarismPenalty_def)
next
  fix k
  show "scores (scoreProjectWithAI rnd p) k = Some (clamp (of_int (clampArgument rnd p k)))"
    by (rule scores_lookup)
next
  fix k
  assume "k \<noteq> team_collaboration \<or> \<not> repoAuthors p"
  then show "clampArgument rnd p k = rawScore rnd p k + plagiarismPenalty p"
    by (rule clampArgument_raw)
next
  fix k
  assume a: "(k \<noteq> originality \<or> hasGH p) \<and> (k \<noteq> team_collaboration \<or> \<not> repoAuthors p)"
  then have r: "rawScore rnd (p\<lparr>plagiarismScore := s\<rparr>) k = rawScore rnd p k" for s
    by (simp add: rawScore_plagiarismScore)
  from a have "k \<noteq> team_collaboration \<or> \<not> repoAuthors (p\<lparr>plagiarismScore := s\<rparr>)" for s
    by simp
  then have "clampArgument rnd (p\<lparr>plagiarismScore := s\<rparr>) k =
      rawScore rnd p k + plagiarismPenalty (p\<lparr>plagiarismScore := s\<rparr>)" for s
    using clampArgument_raw [of k "p\<lparr>plagiarismScore := s\<rparr>" rnd] r [of s] by simp
  then show "clampArgument rnd (p\<lparr>plagiarismScore := 75\<rparr>) k =
            clampArgument rnd (p\<lparr>plagiarismScore := 0\<rparr>) k - 2"
    by (simp add: plagiarismPenalty_75_0)
qed

text \<open>
  C5 as stated fails: with no fetched analysis, originality hands 1 to the clamp at a
  plagiarism score of 75 and 7 at a score of 0; with a fetched analysis that has a commit
  author, team collaboration hands over 3 at either score.
\<close>

theorem uniform_penalty_counterexample:
  "clampArgument noJitter (blankProject\<lparr>plagiarismScore := 75\<rparr>) originality = 1
   \<and> clampArgument noJitter (blankProject\<lparr>plagiarismScore := 0\<rparr>) originality = 7
   \<and> clampArgument noJitter (repoProject\<lparr>plagiarismScore := 75\<rparr>) team_collaboration = 3
   \<and> clampArgument noJitter (repoProject\<lparr>plagiarismScore := 0\<rparr>) team_collaboration = 3"
  by code_simp

theorem uniform_penalty_amended_witness:
  "hasGH repoProject \<and> repoAuthors repoProject \<and> \<not> repoAuthors blankProject
   \<and> clampArgument noJitter (repoProject\<lparr>plagiarismScore := 75\<rparr>) originality =
       clampArgument noJitter (repoProject\<lparr>plagiarismScore := 0\<rparr>) originality - 2
   \<and> clampArgument noJitter (blankProject\<lparr>plagiarismScore := 75\<rparr>) team_collaboration =
       clampArgument noJitter (blankProject\<lparr>plagiarismScore := 0\<rparr>) team_collaboration - 2
   \<and> clampArgument noJitter (blankProject\<lparr>plagiarismScore := 75\<rparr>) innovation =
       clampArgument noJitter (blankProject\<lparr>plagiarismScore := 0\<rparr>) innovation - 2"
proof -
  have h: "hasGH repoProject" "repoAuthors repoProject" "\<not> repoAuthors blankProject"
    by code_simp+
  note a = uniform_penalty_amended [of repoProject noJitter, THEN conjunct2, THEN conjunct2,
      THEN conjunct2, rule_format, of originality]
  note b = uniform_penalty_amended [of blankProject noJitter, THEN conjunct2, THEN conjunct2,
      THEN conjunct2, rule_format]
  from a h b [of team_collaboration] b [of innovation] show ?thesis by simp
qed

subsection \<open>Commit-burst heuristic\<close>

text \<open>
  \<open>toDouble\<close> at known doubles: one tenth, 1.95, and two ties above \<open>2 ^ 53\<close>, which go to
  the even neighbour.
\<close>

lemma toDouble_examples:
  "toDouble (1 / 10) = 3602879701896397 / 36028797018963968"
  "toDouble (195 / 100) = 8782019273372467 / 4503599627370496"
  "toDouble 9007199254740993 = 9007199254740992"
  "toDouble 9007199254740995 = 9007199254740996"
  "toDouble (- 5 / 2) = - 5 / 2"
  by code_simp+

lemma gapHoursFrom_gaps:
  "gapHoursFrom acc ts =
     foldl (\<lambda>acc g. toDouble (acc + toDouble (toDouble (of_int g) / 3600000))) acc (gaps ts)"
  by (induction acc ts rule: gapHoursFrom.induct) (simp_all add: gaps_def)

lemma gapHours_sumGapHours: "gapHours ts = sumGapHours ts"
  by (simp only: gapHours_def sumGapHours_def gapHoursFrom_gaps)

lemma length_gaps: "length (gaps ts) = length ts - 1"
  by (simp add: gaps_def)

lemma avgTimeBetween_roundedMeanGap: "avgTimeBetween ts = roundedMeanGap ts"
proof (cases "length ts > 1")
  case True
  then have "gaps ts \<noteq> []"
    using length_gaps [of ts] by (metis length_0_conv zero_less_diff less_numeral_extra(3))
  with True show ?thesis
    by (simp only: avgTimeBetween_def roundedMeanGap_def gapHours_sumGapHours length_gaps if_True
        if_False)
next
  case False
  then have "gaps ts = []" using length_gaps [of ts] by simp
  with False show ?thesis
    by (simp add: avgTimeBetween_def roundedMeanGap_def)
qed

lemma totalDaysOf_distinctDays: "totalDaysOf ts = distinctDays ts"
  by (simp add: totalDaysOf_def distinctDays_def length_uniq)

lemma totalSpanHoursOf_spanHours: "totalSpanHoursOf ts = spanHours ts"
proof (cases ts)
  case Nil
  then show ?thesis by (simp add: totalSpanHoursOf_def spanHours_def)
next
  case (Cons a as)
  then show ?thesis by (cases as) (simp_all add: totalSpanHoursOf_def spanHours_def)
qed

lemma aiMsgCountOf_messages:
  "aiMsgCountOf cs = length (filter genericMessage (map commitMessage cs))"
  by (simp add: aiMsgCountOf_def)

lemma sorted_sortedDates: "sorted (sortedDates cs)"
  by (simp add: sortedDates_def)

text \<open>
  C2, as amended. For a list of \<open>n\<close> commits whose valid timestamps, in ascending order,
  are \<open>ts\<close>: no commits give a burst score of 100; otherwise the first rule that matches
  decides: \<open>n \<le> 2\<close> gives 70; at least one timestamp, and all of them on one calendar
  day (UTC), give 90; a time span under 4 hours (which includes having no timestamp at
  all) gives 85; at most 2 distinct days and \<open>n > 5\<close> give 65; a rounded mean gap under 0.5
  and \<open>n > 3\<close> give 60; at least 3 distinct days and a rounded mean gap of at least 2
  give 15; anything else gives 30. The rounded mean gap is the one the code computes:
  the gaps in hours are added up in double arithmetic from the first to the last, the
  sum is divided by their number, and the quotient is rounded to one decimal. When more
  than 60 percent of the \<open>n\<close> lower-cased commit messages start with one of the generic
  patterns, 20 is added, capped at 100.
\<close>

theorem burst_heuristic_amended:
  "ca_burstCommitScore (analyzeCommits cs) =
     burstAmended (length cs) (sortedDates cs) (map commitMessage cs)
   \<and> sortedDates cs = sort (validTimes (map commitDate cs))
   \<and> sorted (sortedDates cs)"
proof (cases "cs = []")
  case True
  then show ?thesis
    by (simp add: analyzeCommits_def burstAmended_def sortedDates_def)
next
  case False
  then have n: "length cs \<noteq> 0" by simp
  have "burstOf cs = burstAmended (length cs) (sortedDates cs) (map commitMessage cs)"
    unfolding burstOf_def burstAmended_def Let_def burstRules_def
      avgTimeBetween_roundedMeanGap totalDaysOf_distinctDays totalSpanHoursOf_spanHours
      aiMsgCountOf_messages
    using n by (simp only: if_False mult.commute)
  with False sorted_sortedDates [of cs] show ?thesis
    by (simp add: analyzeCommits_def) (simp add: sortedDates_def)
qed

lemma steadyCommits_value:
  "analyzeCommits steadyCommits =
     \<lparr>ca_totalCommits = 14, ca_commitAuthors = [''ada''], ca_avgTimeBetweenCommits = 2,
      ca_burstCommitScore = 15, ca_singleAuthorPercent = 100\<rparr>"
  by code_simp

lemma tieCommits_value:
  "ca_burstCommitScore (analyzeCommits tieCommits) = 30"
  by code_simp

theorem burst_heuristic_amended_witness:
  "burstAmended (length steadyCommits) (sortedDates steadyCommits)
     (map commitMessage steadyCommits) = 15
   \<and> burstAmended (length tieCommits) (sortedDates tieCommits)
       (map commitMessage tieCommits) = 30
   \<and> sorted (sortedDates steadyCommits)"
  using burst_heuristic_amended [of steadyCommits, THEN conjunct1]
    burst_heuristic_amended [of tieCommits, THEN conjunct1]
    burst_heuristic_amended [of steadyCommits, THEN conjunct2, THEN conjunct2]
  by (simp add: steadyCommits_value tieCommits_value)

text \<open>
  C2 as stated fails: 14 commits, 1.96 hours apart, over three days have a mean gap
  under 2 hours, so the rules as worded give 30, but the code compares the rounded mean,
  2.0, and gives 15; and an empty commit list gets 100, not the 70 of "at most 2
  commits".
\<close>

theorem burst_heuristic_counterexample:
  "ca_burstCommitScore (analyzeCommits steadyCommits) = 15
   \<and> burstClaimed (sortedDates steadyCommits) (map commitMessage steadyCommits) = 30
   \<and> meanGapHours (sortedDates steadyCommits) = 196 / 100
   \<and> distinctDays (sortedDates steadyCommits) = 3
   \<and> ca_burstCommitScore (analyzeCommits []) = 100
   \<and> burstClaimed [] [] = 70"
proof -
  have "burstClaimed (sortedDates steadyCommits) (map commitMessage steadyCommits) = 30"
    "meanGapHours (sortedDates steadyCommits) = 196 / 100"
    "distinctDays (sortedDates steadyCommits) = 3"
    "ca_burstCommitScore (analyzeCommits []) = 100"
    "burstClaimed [] [] = 70"
    by code_simp+
  then show ?thesis
    by (simp add: steadyCommits_value)
qed

subsection \<open>Scenario A\<close>

lemma flatRepoAnalysis_value:
  "flatRepoAnalysis =
     \<lparr>fetched = True, error = None, isForked = False, isMirror = False,
      hasReadme = False, hasLicense = False, languages = [(''Python'', 2048)],
      totalCommits = 1, commitAuthors = [''ada''], avgTimeBetweenCommits = 0,
      burstCommitScore = 70, singleAuthorPercent = 100, totalFiles = 4,
      totalDirs = 0, hasPackageJson = False, hasRequirements = False,
      hasDockerfile = False, hasCIConfig = False, hasTests = False,
      hasEnvExample = False, structureDepth = 1, modularityScore = 2,
      cleanlinessScore = 4, commitGenuineness = 3, overallRepoScore = 3\<rparr>"
  by code_simp

lemma toolingRepoAnalysis_value:
  "toolingRepoAnalysis =
     \<lparr>fetched = True, error = None, isForked = False, isMirror = False,
      hasReadme = False, hasLicense = False, languages = [(''Python'', 2048)],
      totalCommits = 1, commitAuthors = [''ada''], avgTimeBetweenCommits = 0,
      burstCommitScore = 90, singleAuthorPercent = 100, totalFiles = 4,
      totalDirs = 0, hasPackageJson = False, hasRequirements = False,
      hasDockerfile = True, hasCIConfig = True, hasTests = False,
      hasEnvExample = True, structureDepth = 1, modularityScore = 4,
      cleanlinessScore = 5, commitGenuineness = 1, overallRepoScore = 3\<rparr>"
  by code_simp

lemma clamp_between:
  assumes "of_int lo \<le> v" "v \<le> of_int hi" "1 \<le> lo" "hi \<le> 10"
  shows "lo \<le> clamp v \<and> clamp v \<le> hi"
  using Math_round_range [OF assms(1,2)] assms(3,4) by (simp add: clamp_def)

lemma burstOf_single:
  "burstOf [c] = (if genericMessage (commitMessage c) then 90 else 70)"
  by (simp add: burstOf_def Let_def burstRules_def aiMsgCountOf_def)

lemma analyzeCommits_single:
  "ca_burstCommitScore (analyzeCommits [c]) = (if genericMessage (commitMessage c) then 90 else 70)"
  "ca_totalCommits (analyzeCommits [c]) = 1"
  by (simp_all add: analyzeCommits_def burstOf_single)

lemma fetchedAnalysis_tree_fields:
  "totalFiles (fetchedAnalysis info cs langs tree) = ta_totalFiles (analyzeTree tree)"
  "totalDirs (fetchedAnalysis info cs langs tree) = ta_totalDirs (analyzeTree tree)"
  "structureDepth (fetchedAnalysis info cs langs tree) = ta_structureDepth (analyzeTree tree)"
  "hasTests (fetchedAnalysis info cs langs tree) = ta_hasTests (analyzeTree tree)"
  "hasDockerfile (fetchedAnalysis info cs langs tree) = ta_hasDockerfile (analyzeTree tree)"
  "hasCIConfig (fetchedAnalysis info cs langs tree) = ta_hasCIConfig (analyzeTree tree)"
  "hasEnvExample (fetchedAnalysis info cs langs tree) = ta_hasEnvExample (analyzeTree tree)"
  "hasReadme (fetchedAnalysis info cs langs tree) =
     some (\<lambda>t. startsWith (toLowerCase (path t)) ''readme'') tree"
  by (simp_all add: fetchedAnalysis_def Let_def)

lemma fetchedAnalysis_cleanliness:
  "cleanlinessScore (fetchedAnalysis info cs langs tree) =
     clamp (cleanlinessRaw (hasReadme (fetchedAnalysis info cs langs tree))
              (hasLicense (fetchedAnalysis info cs langs tree)) (length langs)
              (hasEnvExample (fetchedAnalysis info cs langs tree))
              (hasTests (fetchedAnalysis info cs langs tree))
              (truthy (info_description info))
              (totalFiles (fetchedAnalysis info cs langs tree)))"
  by (simp add: fetchedAnalysis_def Let_def)

lemma fetchedAnalysis_modularity:
  "modularityScore (fetchedAnalysis info cs langs tree) =
     clamp (modularityRaw (totalFiles (fetchedAnalysis info cs langs tree))
              (totalDirs (fetchedAnalysis info cs langs tree))
              (structureDepth (fetchedAnalysis info cs langs tree))
              (hasDockerfile (fetchedAnalysis info cs langs tree))
              (hasCIConfig (fetchedAnalysis info cs langs tree))
              (hasTests (fetchedAnalysis info cs langs tree))
              (hasEnvExample (fetchedAnalysis info cs langs tree)))"
  by (simp only: fetchedAnalysis_fields fetchedAnalysis_tree_fields analyzeTree_modularity)

lemma flat_modularity:
  "clamp (modularityRaw 4 0 1 docker ci False envEx) \<le> 4"
  "clamp (modularityRaw 4 0 1 False False False False) = 2"
proof -
  have "of_int 2 \<le> modularityRaw 4 0 1 docker ci False envEx"
    "modularityRaw 4 0 1 docker ci False envEx \<le> of_int 4"
    by (simp_all add: modularityRaw_def)
  from clamp_between [OF this] show "clamp (modularityRaw 4 0 1 docker ci False envEx) \<le> 4"
    by simp
  have "of_int 2 \<le> modularityRaw 4 0 1 False False False False"
    "modularityRaw 4 0 1 False False False False \<le> of_int 2"
    by (simp_all add: modularityRaw_def)
  from clamp_between [OF this] show "clamp (modularityRaw 4 0 1 False False False False) = 2"
    by simp
qed

lemma four_files_cleanliness:
  "4 \<le> clamp (cleanlinessRaw False license nLangs envEx False described 4)
   \<and> clamp (cleanlinessRaw False license nLangs envEx False described 4) \<le> 6"
proof -
  have "of_int 4 \<le> cleanlinessRaw False license nLangs envEx False described 4"
    "cleanlinessRaw False license nLangs envEx False described 4 \<le> of_int 6"
    by (simp_all add: cleanlinessRaw_def)
  from clamp_between [OF this] show ?thesis by simp
qed

lemma commitHistoryRisk_burst: "70 \<le> burstCommitScore gh \<Longrightarrow> 70 \<le> commitHistoryRisk gh"
  by (simp add: commitHistoryRisk_def Let_def)

text \<open>
  C8, Scenario A as amended. For a fetched repository with exactly one commit, four
  files, no subdirectory, a flat structure (depth 1), no tests and no README: the burst
  score is 70, or 90 when the commit's message is generic; the modularity score is at
  most 4, and it is 2 when there is no container file, no CI configuration and no
  env-example file; the cleanliness score lies between 4 and 6 (the deduction of 2
  applies only at three files or fewer); and the plagiarism detector's commit-history
  risk is at least 70.
\<close>

theorem scenario_A_amended:
  assumes "parseGitHubUrl url = Some (owner, repo)"
    and "getRepo api (apiBaseUrl owner repo) = Inr info"
    and "getCommits api (apiBaseUrl owner repo @ ''/commits?per_page=100'') = Inr [c]"
    and "a = analyzeGitHubRepo api url"
    and "totalFiles a = 4" and "totalDirs a = 0" and "structureDepth a = 1"
    and "\<not> hasTests a" and "\<not> hasReadme a"
  shows "fetched a \<and> totalCommits a = 1
   \<and> burstCommitScore a = (if genericMessage (commitMessage c) then 90 else 70)
   \<and> modularityScore a \<le> 4
   \<and> (\<not> hasDockerfile a \<and> \<not> hasCIConfig a \<and> \<not> hasEnvExample a \<longrightarrow> modularityScore a = 2)
   \<and> 4 \<le> cleanlinessScore a \<and> cleanlinessScore a \<le> 6
   \<and> 70 \<le> commitHistoryScore (analyzePlagiarism purl desc pname (Some a))"
proof -
  let ?langs = "orDefault (getLanguages api (apiBaseUrl owner repo @ ''/languages'')) []"
  let ?tree = "orDefault (getTree api (apiBaseUrl owner repo) (defaultBranchOf info)) []"
  have a: "a = fetchedAnalysis info [c] ?langs ?tree"
    using analyzeGitHubRepo_fetched [OF assms(1,2)] assms(3,4) by (simp add: orDefault_def)
  have f: "fetched a" by (simp only: a fetchedAnalysis_fields)
  have n: "totalCommits a = 1" by (simp only: a fetchedAnalysis_fields analyzeCommits_single)
  have b: "burstCommitScore a = (if genericMessage (commitMessage c) then 90 else 70)"
    by (simp only: a fetchedAnalysis_fields analyzeCommits_single)
  have m: "modularityScore a =
      clamp (modularityRaw 4 0 1 (hasDockerfile a) (hasCIConfig a) False (hasEnvExample a))"
    using assms(5-8) unfolding a fetchedAnalysis_modularity by simp
  have cl: "cleanlinessScore a =
      clamp (cleanlinessRaw False (hasLicense a) (length ?langs) (hasEnvExample a) False
               (truthy (info_description info)) 4)"
    using assms(5,8,9) unfolding a fetchedAnalysis_cleanliness by simp
  from b have "70 \<le> burstCommitScore a" by simp
  then have "70 \<le> commitHistoryRisk a" by (rule commitHistoryRisk_burst)
  then have r: "70 \<le> commitHistoryScore (analyzePlagiarism purl desc pname (Some a))"
    by (simp only: commitHistoryScore_fetched [OF f])
  have m4: "modularityScore a \<le> 4" unfolding m by (rule flat_modularity)
  have m2: "\<not> hasDockerfile a \<and> \<not> hasCIConfig a \<and> \<not> hasEnvExample a \<longrightarrow> modularityScore a = 2"
    using m flat_modularity(2) by simp
  have c46: "4 \<le> cleanlinessScore a \<and> cleanlinessScore a \<le> 6"
    unfolding cl by (rule four_files_cleanliness)
  from f n b m4 m2 r c46 show ?thesis
    by blast
qed

theorem scenario_A_amended_witness:
  "parseGitHubUrl ''https://github.com/team/flat'' = Some (''team'', ''flat'')
   \<and> getRepo flatRepoApi (apiBaseUrl ''team'' ''flat'') = Inr plainRepo
   \<and> getCommits flatRepoApi (apiBaseUrl ''team'' ''flat'' @ ''/commits?per_page=100'') =
       Inr [oneCommit 1700000000000 ''prototype'']
   \<and> totalFiles (analyzeGitHubRepo flatRepoApi ''https://github.com/team/flat'') = 4
   \<and> totalDirs (analyzeGitHubRepo flatRepoApi ''https://github.com/team/flat'') = 0
   \<and> structureDepth (analyzeGitHubRepo flatRepoApi ''https://github.com/team/flat'') = 1
   \<and> \<not> hasTests (analyzeGitHubRepo flatRepoApi ''https://github.com/team/flat'')
   \<and> \<not> hasReadme (analyzeGitHubRepo flatRepoApi ''https://github.com/team/flat'')
   \<and> burstCommitScore (analyzeGitHubRepo flatRepoApi ''https://github.com/team/flat'') = 70
   \<and> 4 \<le> cleanlinessScore (analyzeGitHubRepo flatRepoApi ''https://github.com/team/flat'')
   \<and> 70 \<le> commitHistoryScore
              (analyzePlagiarism ''https://github.com/team/flat'' ''a prototype'' ''flat''
                 (Some (analyzeGitHubRepo flatRepoApi ''https://github.com/team/flat'')))"
proof -
  let ?a = "analyzeGitHubRepo flatRepoApi ''https://github.com/team/flat''"
  have u: "parseGitHubUrl ''https://github.com/team/flat'' = Some (''team'', ''flat'')"
    by code_simp
  have r: "getRepo flatRepoApi (apiBaseUrl ''team'' ''flat'') = Inr plainRepo"
    and c: "getCommits flatRepoApi (apiBaseUrl ''team'' ''flat'' @ ''/commits?per_page=100'') =
       Inr [oneCommit 1700000000000 ''prototype'']"
    by (simp_all add: flatRepoApi_def)
  have "?a = flatRepoAnalysis"
    by (simp only: flatRepoAnalysis_def)
  then have t: "totalFiles ?a = 4" "totalDirs ?a = 0" "structureDepth ?a = 1"
    "\<not> hasTests ?a" "\<not> hasReadme ?a"
    by (simp_all add: flatRepoAnalysis_value)
  have g: "\<not> genericMessage (commitMessage (oneCommit 1700000000000 ''prototype''))"
    by code_simp
  from scenario_A_amended [OF u r c refl t,
      of "''https://github.com/team/flat''" "''a prototype''" "''flat''"] g u r c t
  show ?thesis by simp
qed

text \<open>
  C8 as stated fails: a repository of the scenario gets a cleanliness score of 4, not at
  most 3; and one whose only commit is "Initial commit" and whose four files include a
  container file, a CI file and an env-example file gets a burst score of 90 and a
  modularity score of 4.
\<close>

theorem scenario_A_counterexample:
  "fetched flatRepoAnalysis \<and> totalCommits flatRepoAnalysis = 1
   \<and> totalFiles flatRepoAnalysis = 4 \<and> totalDirs flatRepoAnalysis = 0
   \<and> structureDepth flatRepoAnalysis = 1
   \<and> \<not> hasTests flatRepoAnalysis \<and> \<not> hasReadme flatRepoAnalysis
   \<and> burstCommitScore flatRepoAnalysis = 70 \<and> modularityScore flatRepoAnalysis = 2
   \<and> cleanlinessScore flatRepoAnalysis = 4
   \<and> fetched toolingRepoAnalysis \<and> totalCommits toolingRepoAnalysis = 1
   \<and> totalFiles toolingRepoAnalysis = 4 \<and> totalDirs toolingRepoAnalysis = 0
   \<and> structureDepth toolingRepoAnalysis = 1
   \<and> \<not> hasTests toolingRepoAnalysis \<and> \<not> hasReadme toolingRepoAnalysis
   \<and> burstCommitScore toolingRepoAnalysis = 90 \<and> modularityScore toolingRepoAnalysis = 4
   \<and> cleanlinessScore toolingRepoAnalysis = 5"
  by (simp add: flatRepoAnalysis_value toolingRepoAnalysis_value)

end
